theory Spec2Isabelle
  imports Main "HOL-Library.Word" "HOL-Library.Finite_Map" "HOL-Library.Multiset"
begin

section \<open>Octant overview printers: Job, Secret and ReplicationController\<close>

text \<open>
  A shallow embedding of the printers of \<^verbatim>\<open>internal/modules/overview/printer\<close>:
  \<^verbatim>\<open>job.go\<close>, \<^verbatim>\<open>secret.go\<close> and the replication controller printer.  Go pointers
  are options (\<open>None\<close> is \<^verbatim>\<open>nil\<close>), Go maps are finite maps, \<^verbatim>\<open>int32\<close> is a 32-bit
  word read as a signed number, and a Go return pair \<^verbatim>\<open>(value, error)\<close> is a sum whose
  left side is the failure.
\<close>

subsection \<open>Errors and panics\<close>

text \<open>
  \<^verbatim>\<open>store.Key\<close>, the argument of the object store's \<^verbatim>\<open>List\<close>.  The printers only set the
  first three fields; the other two stay at their zero values.
\<close>

record Key =
  Key_Namespace :: string
  Key_APIVersion :: string
  Key_Kind :: string
  Key_Name :: string
  Key_Selector :: "(string, string) fmap option"

text \<open>
  Go error values: \<^verbatim>\<open>errors.New msg\<close>, \<^verbatim>\<open>errors.Wrap err msg\<close> and
  \<^verbatim>\<open>errors.Wrapf err format key\<close> (the key is kept as a value instead of being formatted
  with \<^verbatim>\<open>%+v\<close>).  Errors of the injected dependencies are values of the same type.
\<close>

datatype error =
    New string
  | Wrap error string
  | Wrapf error string Key

text \<open>
  How a call can fail: it returns \<^verbatim>\<open>(nil, err)\<close>, or the Go runtime panics on the
  dereference of a nil pointer.
\<close>

datatype fault =
    Error error
  | NilDereference

type_synonym 'a result = "fault + 'a"

subsection \<open>Kubernetes objects\<close>

type_synonym int32 = "32 word"

datatype Time = Time int

record OwnerReference =
  OwnerReference_APIVersion :: string
  OwnerReference_Kind :: string
  OwnerReference_Name :: string
  OwnerReference_UID :: string
  OwnerReference_Controller :: "bool option"

record TypeMeta =
  TypeMeta_Kind :: string
  TypeMeta_APIVersion :: string

record ObjectMeta =
  ObjectMeta_Name :: string
  ObjectMeta_Namespace :: string
  ObjectMeta_UID :: string
  ObjectMeta_CreationTimestamp :: Time
  ObjectMeta_Labels :: "(string, string) fmap"
  ObjectMeta_OwnerReferences :: "OwnerReference list"

record Container =
  Container_Name :: string
  Container_Image :: string

record PodTemplateSpec =
  PodTemplateSpec_ObjectMeta :: ObjectMeta
  PodSpec_Containers :: "Container list"

record JobCondition =
  JobCondition_Type :: string
  JobCondition_Status :: string
  JobCondition_LastProbeTime :: Time
  JobCondition_LastTransitionTime :: Time
  JobCondition_Reason :: string
  JobCondition_Message :: string

record JobSpec =
  JobSpec_Parallelism :: "int32 option"
  JobSpec_Completions :: "int32 option"
  JobSpec_BackoffLimit :: "int32 option"
  JobSpec_Template :: PodTemplateSpec

record JobStatus =
  JobStatus_Conditions :: "JobCondition list"
  JobStatus_StartTime :: "Time option"
  JobStatus_CompletionTime :: "Time option"
  JobStatus_Succeeded :: int32

record Job =
  Job_TypeMeta :: TypeMeta
  Job_ObjectMeta :: ObjectMeta
  Job_Spec :: JobSpec
  Job_Status :: JobStatus

record Secret =
  Secret_TypeMeta :: TypeMeta
  Secret_ObjectMeta :: ObjectMeta
  Secret_Data :: "(string, 8 word list) fmap"
  Secret_Type :: string

record ReplicationControllerSpec =
  RCSpec_Replicas :: "int32 option"
  RCSpec_Selector :: "(string, string) fmap"
  RCSpec_Template :: "PodTemplateSpec option"

record ReplicationControllerStatus =
  RCStatus_Replicas :: int32
  RCStatus_AvailableReplicas :: int32
  RCStatus_ReadyReplicas :: int32

record ReplicationController =
  RC_TypeMeta :: TypeMeta
  RC_ObjectMeta :: ObjectMeta
  RC_Spec :: ReplicationControllerSpec
  RC_Status :: ReplicationControllerStatus

text \<open>
  \<^verbatim>\<open>runtime.Object\<close>, the interface the link generator and the pod list view receive:
  a pointer to one of the typed objects.
\<close>

datatype Object =
    JobObject "Job option"
  | SecretObject "Secret option"
  | ReplicationControllerObject "ReplicationController option"

subsection \<open>View components\<close>

text \<open>
  Modelled from the spec: package \<^verbatim>\<open>pkg/view/component\<close> is not among the sources.  The
  spec describes its components (Table, Summary, Quadrant, List, Text, Link, Timestamp)
  as simple immutable value trees.  A table is its title, its placeholder, its columns
  and its rows in the order they were added; a row (\<^verbatim>\<open>component.TableRow\<close>, a Go map)
  is a finite map from column names to components; a summary is its title and its
  sections (header and content) in order.  \<open>View\<close> stands for a component built by a
  helper that is not among the sources.
\<close>

datatype component =
    Text string
  | Link string string string
  | Labels "(string, string) fmap"
  | Timestamp Time
  | Containers "(string \<times> string) list"
  | Table string string "string list" "(string, component) fmap list"
  | Summary string "(string \<times> component) list"
  | Quadrant string "(string \<times> string \<times> string) list"
  | View string "component list"

type_synonym TableRow = "(string, component) fmap"

definition NewTableCols :: "string list \<Rightarrow> string list" where
  "NewTableCols names = names"

definition NewTable :: "string \<Rightarrow> string \<Rightarrow> string list \<Rightarrow> component" where
  "NewTable title placeholder cols = Table title placeholder cols []"

text \<open>\<^verbatim>\<open>table.Add(row)\<close> appends the row; the receiver of the printers is always a table.\<close>

fun Table_Add :: "component \<Rightarrow> TableRow \<Rightarrow> component" where
  "Table_Add (Table title placeholder cols rows) row = Table title placeholder cols (rows @ [row])"
| "Table_Add c row = c"

fun Table_Rows :: "component \<Rightarrow> TableRow list" where
  "Table_Rows (Table title placeholder cols rows) = rows"
| "Table_Rows c = []"

text \<open>\<^verbatim>\<open>SummarySections.Add\<close>, \<^verbatim>\<open>AddText\<close> and \<^verbatim>\<open>NewSummary\<close>.\<close>

type_synonym SummarySections = "(string \<times> component) list"

definition SummarySections_Add :: "SummarySections \<Rightarrow> string \<Rightarrow> component \<Rightarrow> SummarySections" where
  "SummarySections_Add sections header content = sections @ [(header, content)]"

definition SummarySections_AddText :: "SummarySections \<Rightarrow> string \<Rightarrow> string \<Rightarrow> SummarySections" where
  "SummarySections_AddText sections header text = SummarySections_Add sections header (Text text)"

definition NewSummary :: "string \<Rightarrow> SummarySections \<Rightarrow> component" where
  "NewSummary title sections = Summary title sections"

fun Summary_Sections :: "component \<Rightarrow> SummarySections" where
  "Summary_Sections (Summary title sections) = sections"
| "Summary_Sections c = []"

subsection \<open>Formatting\<close>

text \<open>\<^verbatim>\<open>fmt.Sprintf("%d", n)\<close>: the decimal digits of \<open>n\<close>, after a minus sign when negative.\<close>

definition digit :: "nat \<Rightarrow> char" where
  "digit d = ''0123456789'' ! d"

function digits :: "nat \<Rightarrow> string" where
  "digits n = (if n < 10 then [digit n] else digits (n div 10) @ [digit (n mod 10)])"
  by pat_completeness auto
termination
  by (relation "measure id") auto

declare digits.simps [simp del]

definition Sprintf_d :: "int \<Rightarrow> string" where
  "Sprintf_d n = (if n < 0 then CHR ''-'' # digits (nat (- n)) else digits (nat n))"

text \<open>
  Reading a decimal numeral, written after the usual meaning of decimal notation and
  not after the code: the value of a digit string, most significant digit first, and of
  a numeral with an optional minus sign.  It is what \<open>Sprintf_d\<close> is compared with.
\<close>

definition digit_value :: "char \<Rightarrow> nat" where
  "digit_value c = of_char c - 48"

definition decimal_nat :: "string \<Rightarrow> nat" where
  "decimal_nat s = foldl (\<lambda>n c. 10 * n + digit_value c) 0 s"

definition decimal_int :: "string \<Rightarrow> int" where
  "decimal_int s =
     (case s of
        [] \<Rightarrow> 0
      | c # cs \<Rightarrow> if c = CHR ''-'' then - int (decimal_nat cs) else int (decimal_nat s))"

subsection \<open>Options and the helpers that are not among the sources\<close>

text \<open>
  \<^verbatim>\<open>printer.Options\<close>: the link generator (\<^verbatim>\<open>Link.ForObject\<close>, \<^verbatim>\<open>Link.ForOwner\<close>), the
  object store behind \<^verbatim>\<open>DashConfig.ObjectStore()\<close> and the \<^verbatim>\<open>DisableLabels\<close> flag.  The
  store's \<^verbatim>\<open>List\<close> returns a pointer to an unstructured list (\<open>None\<close> is \<^verbatim>\<open>nil\<close>) or an
  error; \<open>'u\<close> is the type of the unstructured items.  The dependencies are functions:
  they read their arguments and do not write to them.
\<close>

record 'u Options =
  DisableLabels :: bool
  Link_ForObject :: "Object \<Rightarrow> string \<Rightarrow> error + component"
  Link_ForOwner :: "Object \<Rightarrow> OwnerReference \<Rightarrow> error + component"
  ObjectStore_List :: "Key \<Rightarrow> error + 'u list option"

text \<open>
  Modelled from the spec: the object summary builder of \<^verbatim>\<open>object.go\<close> (\<^verbatim>\<open>NewObject\<close>,
  \<^verbatim>\<open>RegisterConfig\<close>, \<^verbatim>\<open>RegisterSummary\<close>, \<^verbatim>\<open>RegisterItems\<close>, \<^verbatim>\<open>EnablePodTemplate\<close>,
  \<^verbatim>\<open>EnableEvents\<close>) is not among the sources; the spec lists it as a shared helper.  The
  builder is the record of what a handler registered, in order; \<^verbatim>\<open>ToComponent\<close>, which
  renders it, is a parameter (see \<open>Helpers\<close>).  An item's \<^verbatim>\<open>Func\<close> is a closure that is
  run later, so it is a function of a unit argument.
\<close>

datatype Width = WidthFull | WidthHalf | WidthQuarter

record ItemDescriptor =
  Func :: "unit \<Rightarrow> component result"
  Width :: Width

record PrinterObject =
  PrinterObject_object :: Object
  PrinterObject_config :: "component option"
  PrinterObject_summary :: "component option"
  PrinterObject_items :: "ItemDescriptor list"
  PrinterObject_podTemplate :: "PodTemplateSpec option"
  PrinterObject_events :: bool

definition NewObject :: "Object \<Rightarrow> PrinterObject" where
  "NewObject object =
     \<lparr>PrinterObject_object = object, PrinterObject_config = None, PrinterObject_summary = None,
      PrinterObject_items = [], PrinterObject_podTemplate = None, PrinterObject_events = False\<rparr>"

definition RegisterConfig :: "PrinterObject \<Rightarrow> component \<Rightarrow> PrinterObject" where
  "RegisterConfig o' summary = o'\<lparr>PrinterObject_config := Some summary\<rparr>"

definition RegisterSummary :: "PrinterObject \<Rightarrow> component \<Rightarrow> PrinterObject" where
  "RegisterSummary o' summary = o'\<lparr>PrinterObject_summary := Some summary\<rparr>"

definition RegisterItems :: "PrinterObject \<Rightarrow> ItemDescriptor list \<Rightarrow> PrinterObject" where
  "RegisterItems o' items = o'\<lparr>PrinterObject_items := PrinterObject_items o' @ items\<rparr>"

definition EnablePodTemplate :: "PrinterObject \<Rightarrow> PodTemplateSpec \<Rightarrow> PrinterObject" where
  "EnablePodTemplate o' templateSpec = o'\<lparr>PrinterObject_podTemplate := Some templateSpec\<rparr>"

definition EnableEvents :: "PrinterObject \<Rightarrow> PrinterObject" where
  "EnableEvents o' = o'\<lparr>PrinterObject_events := True\<rparr>"

text \<open>
  \<^verbatim>\<open>PodStatus\<close>, the counters that \<^verbatim>\<open>createPodStatus\<close> returns, and the positions of a
  quadrant.
\<close>

record PodStatus =
  PodStatus_Running :: int
  PodStatus_Waiting :: int
  PodStatus_Succeeded :: int
  PodStatus_Failed :: int

datatype QuadrantPosition = QuadNW | QuadNE | QuadSW | QuadSE

definition NewQuadrant :: "string \<Rightarrow> component" where
  "NewQuadrant title = Quadrant title []"

text \<open>
  The functions the printers call that are not among the sources, taken as parameters:
  \<^verbatim>\<open>conversion.PtrInt32ToString\<close>, \<^verbatim>\<open>printSelectorMap\<close>, \<^verbatim>\<open>createPodListView\<close>,
  \<^verbatim>\<open>Object.ToComponent\<close>, \<^verbatim>\<open>copyObjectMeta\<close>, \<^verbatim>\<open>listPods\<close>, \<^verbatim>\<open>createPodStatus\<close>,
  \<^verbatim>\<open>Quadrant.Set\<close>, and from the Kubernetes libraries the unstructured converter
  (\<^verbatim>\<open>FromUnstructured\<close> into a fresh \<^verbatim>\<open>batchv1.Job\<close>) and the four readers of
  \<^verbatim>\<open>meta.NewAccessor()\<close>.  \<open>'p\<close> is the type of pods.
\<close>

record ('u, 'p) Helpers =
  PtrInt32ToString :: "int32 option \<Rightarrow> string"
  printSelectorMap :: "(string, string) fmap \<Rightarrow> component"
  createPodListView :: "Object \<Rightarrow> 'u Options \<Rightarrow> component result"
  ToComponent :: "PrinterObject \<Rightarrow> 'u Options \<Rightarrow> component result"
  FromUnstructured :: "'u \<Rightarrow> error + Job"
  copyObjectMeta :: "Job \<Rightarrow> 'u \<Rightarrow> error + Job"
  listPods :: "string \<Rightarrow> (string, string) fmap \<Rightarrow> string \<Rightarrow> (Key \<Rightarrow> error + 'u list option) \<Rightarrow> error + 'p list"
  createPodStatus :: "'p list \<Rightarrow> PodStatus"
  Quadrant_Set :: "component \<Rightarrow> QuadrantPosition \<Rightarrow> string \<Rightarrow> string \<Rightarrow> error + component"
  accessor_Namespace :: "Object \<Rightarrow> error + string"
  accessor_APIVersion :: "Object \<Rightarrow> error + string"
  accessor_Kind :: "Object \<Rightarrow> error + string"
  accessor_Name :: "Object \<Rightarrow> error + string"

text \<open>
  \<^verbatim>\<open>for key := range m\<close> visits every key of a Go map once, in an order the language
  leaves unspecified and the runtime randomises.  A function that ranges over a map
  takes the order of that run as an argument; \<open>range_order m keys\<close> says that \<open>keys\<close> is
  one of the orders the runtime may choose for \<open>m\<close>.
\<close>

definition range_order :: "('k, 'v) fmap \<Rightarrow> 'k list \<Rightarrow> bool" where
  "range_order m keys \<longleftrightarrow> distinct keys \<and> fset_of_list keys = fmdom m"

text \<open>\<^verbatim>\<open>len(m)\<close> of a Go map.\<close>

definition len_map :: "('k, 'v) fmap \<Rightarrow> int" where
  "len_map m = int (fcard (fmdom m))"

subsection \<open>job.go\<close>

definition JobCols :: "string list" where
  "JobCols = NewTableCols [''Name'', ''Labels'', ''Completions'', ''Successful'', ''Age'']"

text \<open>The body of the loop of \<^verbatim>\<open>JobListHandler\<close> after the link was built: the row of one job.\<close>

definition JobListHandler_row :: "('u, 'p) Helpers \<Rightarrow> Job \<Rightarrow> component \<Rightarrow> TableRow" where
  "JobListHandler_row h job nameLink =
     (let row = fmempty;
          row = fmupd ''Name'' nameLink row;
          row = fmupd ''Labels'' (Labels (ObjectMeta_Labels (Job_ObjectMeta job))) row;
          row = fmupd ''Completions'' (Text (PtrInt32ToString h (JobSpec_Completions (Job_Spec job)))) row;
          succeeded = Sprintf_d (sint (JobStatus_Succeeded (Job_Status job)));
          row = fmupd ''Successful'' (Text succeeded) row;
          row = fmupd ''Age'' (Timestamp (ObjectMeta_CreationTimestamp (Job_ObjectMeta job))) row
      in row)"

text \<open>The loop over \<^verbatim>\<open>list.Items\<close>: the first failing link ends it with that error.\<close>

fun JobListHandler_loop ::
  "('u, 'p) Helpers \<Rightarrow> 'u Options \<Rightarrow> component \<Rightarrow> Job list \<Rightarrow> component result" where
  "JobListHandler_loop h opts table [] = Inr table"
| "JobListHandler_loop h opts table (job # items) =
     (case Link_ForObject opts (JobObject (Some job)) (ObjectMeta_Name (Job_ObjectMeta job)) of
        Inl err \<Rightarrow> Inl (Error err)
      | Inr nameLink \<Rightarrow>
          JobListHandler_loop h opts (Table_Add table (JobListHandler_row h job nameLink)) items)"

text \<open>\<^verbatim>\<open>batchv1.JobList\<close> is modelled by its \<^verbatim>\<open>Items\<close>; the argument is a pointer to it.\<close>

definition JobListHandler ::
  "('u, 'p) Helpers \<Rightarrow> Job list option \<Rightarrow> 'u Options \<Rightarrow> component result" where
  "JobListHandler h list opts =
     (case list of
        None \<Rightarrow> Inl (Error (New ''job list is nil''))
      | Some items \<Rightarrow>
          JobListHandler_loop h opts (NewTable ''Jobs'' ''We couldn't find any jobs!'' JobCols) items)"

definition createJobConfiguration :: "('u, 'p) Helpers \<Rightarrow> Job \<Rightarrow> component result" where
  "createJobConfiguration h job =
     (let sections = [];
          sections = SummarySections_Add sections ''Back Off Limit''
                       (Text (PtrInt32ToString h (JobSpec_BackoffLimit (Job_Spec job))));
          sections = SummarySections_Add sections ''Completions''
                       (Text (PtrInt32ToString h (JobSpec_Completions (Job_Spec job))));
          sections = SummarySections_Add sections ''Parallelism''
                       (Text (PtrInt32ToString h (JobSpec_Parallelism (Job_Spec job))));
          summary = NewSummary ''Configuration'' sections
      in Inr summary)"

definition createJobStatus :: "Job \<Rightarrow> component result" where
  "createJobStatus job =
     (let sections = [];
          sections = (case JobStatus_StartTime (Job_Status job) of
                        Some startTime \<Rightarrow> SummarySections_Add sections ''Started'' (Timestamp startTime)
                      | None \<Rightarrow> sections);
          sections = (case JobStatus_CompletionTime (Job_Status job) of
                        Some completionTime \<Rightarrow>
                          SummarySections_Add sections ''Completed'' (Timestamp completionTime)
                      | None \<Rightarrow> sections);
          sections = SummarySections_Add sections ''Succeeded''
                       (Text (Sprintf_d (sint (JobStatus_Succeeded (Job_Status job)))));
          summary = NewSummary ''Status'' sections
      in Inr summary)"

definition createJobConditions_row :: "JobCondition \<Rightarrow> TableRow" where
  "createJobConditions_row condition =
     (let row = fmempty;
          row = fmupd ''Type'' (Text (JobCondition_Type condition)) row;
          row = fmupd ''Last Probe'' (Timestamp (JobCondition_LastProbeTime condition)) row;
          row = fmupd ''Last Transition'' (Timestamp (JobCondition_LastTransitionTime condition)) row;
          row = fmupd ''Status'' (Text (JobCondition_Status condition)) row;
          row = fmupd ''Message'' (Text (JobCondition_Message condition)) row;
          row = fmupd ''Reason'' (Text (JobCondition_Reason condition)) row
      in row)"

fun createJobConditions_loop :: "component \<Rightarrow> JobCondition list \<Rightarrow> component" where
  "createJobConditions_loop table [] = table"
| "createJobConditions_loop table (condition # conditions) =
     createJobConditions_loop (Table_Add table (createJobConditions_row condition)) conditions"

definition createJobConditions :: "JobCondition list \<Rightarrow> component result" where
  "createJobConditions conditions =
     (let cols = NewTableCols [''Type'', ''Last Probe'', ''Last Transition'',
                               ''Status'', ''Message'', ''Reason''];
          table = NewTable ''Conditions'' ''There are no job conditions!'' cols
      in Inr (createJobConditions_loop table conditions))"

text \<open>
  \<^verbatim>\<open>JobHandler\<close> builds the object first and then dereferences its argument to call
  \<^verbatim>\<open>createJobConfiguration\<close>: on a nil pointer the runtime panics there.
\<close>

definition JobHandler ::
  "('u, 'p) Helpers \<Rightarrow> Job option \<Rightarrow> 'u Options \<Rightarrow> component result" where
  "JobHandler h job opts =
     (let o' = NewObject (JobObject job) in
      case job of
        None \<Rightarrow> Inl NilDereference
      | Some j \<Rightarrow>
          (case createJobConfiguration h j of
             Inl err \<Rightarrow> Inl err
           | Inr configSummary \<Rightarrow>
               (case createJobStatus j of
                  Inl err \<Rightarrow> Inl err
                | Inr statusSummary \<Rightarrow>
                    (let o' = RegisterConfig o' configSummary;
                         o' = RegisterSummary o' statusSummary;
                         o' = EnablePodTemplate o' (JobSpec_Template (Job_Spec j));
                         o' = RegisterItems o'
                                [\<lparr>Func = (\<lambda>_. createPodListView h (JobObject job) opts),
                                  Width = WidthFull\<rparr>];
                         o' = RegisterItems o'
                                [\<lparr>Func = (\<lambda>_. createJobConditions (JobStatus_Conditions (Job_Status j))),
                                  Width = WidthFull\<rparr>];
                         o' = EnableEvents o'
                     in ToComponent h o' opts))))"

text \<open>
  The inner loop of \<^verbatim>\<open>createJobListView\<close>: the job is appended once for every owner
  reference that names the object.
\<close>

fun createJobListView_owners ::
  "string \<Rightarrow> string \<Rightarrow> string \<Rightarrow> Job \<Rightarrow> Job list \<Rightarrow> OwnerReference list \<Rightarrow> Job list" where
  "createJobListView_owners apiVersion kind name job jobList [] = jobList"
| "createJobListView_owners apiVersion kind name job jobList (ownerReference # ownerReferences) =
     createJobListView_owners apiVersion kind name job
       (if OwnerReference_APIVersion ownerReference = apiVersion \<and>
           OwnerReference_Kind ownerReference = kind \<and>
           OwnerReference_Name ownerReference = name
        then jobList @ [job] else jobList)
       ownerReferences"

text \<open>The outer loop: every listed item is converted, then its metadata is copied.\<close>

fun createJobListView_loop ::
  "('u, 'p) Helpers \<Rightarrow> string \<Rightarrow> string \<Rightarrow> string \<Rightarrow> Job list \<Rightarrow> 'u list \<Rightarrow> Job list result" where
  "createJobListView_loop h apiVersion kind name jobList [] = Inr jobList"
| "createJobListView_loop h apiVersion kind name jobList (item # items) =
     (case FromUnstructured h item of
        Inl err \<Rightarrow> Inl (Error err)
      | Inr job \<Rightarrow>
          (case copyObjectMeta h job item of
             Inl err \<Rightarrow> Inl (Error (Wrap err ''copy object metadata''))
           | Inr job \<Rightarrow>
               createJobListView_loop h apiVersion kind name
                 (createJobListView_owners apiVersion kind name job jobList
                    (ObjectMeta_OwnerReferences (Job_ObjectMeta job)))
                 items))"

definition createJobListView ::
  "('u, 'p) Helpers \<Rightarrow> Object \<Rightarrow> 'u Options \<Rightarrow> component result" where
  "createJobListView h object options =
     (let options = options\<lparr>DisableLabels := True\<rparr>;
          jobList = [];
          objectStore = ObjectStore_List options
      in case accessor_Namespace h object of
           Inl err \<Rightarrow> Inl (Error (Wrap err ''get namespace for object''))
         | Inr namespace \<Rightarrow>
        (case accessor_APIVersion h object of
           Inl err \<Rightarrow> Inl (Error (Wrap err ''Get apiVersion for object''))
         | Inr apiVersion \<Rightarrow>
        (case accessor_Kind h object of
           Inl err \<Rightarrow> Inl (Error (Wrap err ''get kind for object''))
         | Inr kind \<Rightarrow>
        (case accessor_Name h object of
           Inl err \<Rightarrow> Inl (Error (Wrap err ''get name for object''))
         | Inr name \<Rightarrow>
        (let key = \<lparr>Key_Namespace = namespace, Key_APIVersion = ''batch/v1beta1'',
                    Key_Kind = ''Job'', Key_Name = [], Key_Selector = None\<rparr>
         in case objectStore key of
              Inl err \<Rightarrow> Inl (Error (Wrapf err ''list all objects for key %+v'' key))
            | Inr None \<Rightarrow> Inl NilDereference
            | Inr (Some items) \<Rightarrow>
                (case createJobListView_loop h apiVersion kind name jobList items of
                   Inl err \<Rightarrow> Inl err
                 | Inr jobList \<Rightarrow> JobListHandler h (Some jobList) options))))))"

subsection \<open>secret.go\<close>

definition secretTableCols :: "string list" where
  "secretTableCols = NewTableCols [''Name'', ''Labels'', ''Type'', ''Data'', ''Age'']"

definition secretDataCols :: "string list" where
  "secretDataCols = NewTableCols [''Key'']"

definition SecretListHandler_row :: "Secret \<Rightarrow> component \<Rightarrow> TableRow" where
  "SecretListHandler_row secret nameLink =
     (let row = fmempty;
          row = fmupd ''Name'' nameLink row;
          row = fmupd ''Labels'' (Labels (ObjectMeta_Labels (Secret_ObjectMeta secret))) row;
          row = fmupd ''Type'' (Text (Secret_Type secret)) row;
          row = fmupd ''Data'' (Text (Sprintf_d (len_map (Secret_Data secret)))) row;
          row = fmupd ''Age'' (Timestamp (ObjectMeta_CreationTimestamp (Secret_ObjectMeta secret))) row
      in row)"

fun SecretListHandler_loop :: "'u Options \<Rightarrow> component \<Rightarrow> Secret list \<Rightarrow> component result" where
  "SecretListHandler_loop options table [] = Inr table"
| "SecretListHandler_loop options table (secret # items) =
     (case Link_ForObject options (SecretObject (Some secret))
             (ObjectMeta_Name (Secret_ObjectMeta secret)) of
        Inl err \<Rightarrow> Inl (Error err)
      | Inr nameLink \<Rightarrow>
          SecretListHandler_loop options (Table_Add table (SecretListHandler_row secret nameLink)) items)"

definition SecretListHandler :: "Secret list option \<Rightarrow> 'u Options \<Rightarrow> component result" where
  "SecretListHandler list options =
     (case list of
        None \<Rightarrow> Inl (Error (New ''list of secrets is nil''))
      | Some items \<Rightarrow>
          SecretListHandler_loop options
            (NewTable ''Secrets'' ''We couldn't find any secrets!'' secretTableCols) items)"

definition secretConfiguration :: "Secret \<Rightarrow> component result" where
  "secretConfiguration secret =
     (let sections = [];
          sections = sections @ [(''Type'', Text (Secret_Type secret))];
          summary = NewSummary ''Configuration'' sections
      in Inr summary)"

text \<open>
  \<^verbatim>\<open>secretData\<close> ranges over the map \<^verbatim>\<open>secret.Data\<close> and reads the keys only.  \<open>keys\<close> is
  the order in which this run of the loop visits them, one of the orders with
  \<open>range_order (Secret_Data secret) keys\<close>.
\<close>

fun secretData_loop :: "component \<Rightarrow> string list \<Rightarrow> component" where
  "secretData_loop table [] = table"
| "secretData_loop table (key # keys) =
     secretData_loop (Table_Add table (fmupd ''Key'' (Text key) fmempty)) keys"

definition secretData :: "string list \<Rightarrow> Secret \<Rightarrow> component result" where
  "secretData keys secret =
     (let table = NewTable ''Data'' ''This secret has no data!'' secretDataCols
      in Inr (secretData_loop table keys))"

text \<open>\<open>keys\<close> is the order of the range loop when the registered closure is run.\<close>

definition SecretHandler ::
  "('u, 'p) Helpers \<Rightarrow> string list \<Rightarrow> Secret option \<Rightarrow> 'u Options \<Rightarrow> component result" where
  "SecretHandler h keys secret options =
     (case secret of
        None \<Rightarrow> Inl (Error (New ''secret is nil''))
      | Some s \<Rightarrow>
          (let o' = NewObject (SecretObject secret) in
           case secretConfiguration s of
             Inl err \<Rightarrow> Inl err
           | Inr configSummary \<Rightarrow>
               (let o' = RegisterConfig o' configSummary;
                    o' = RegisterItems o' [\<lparr>Func = (\<lambda>_. secretData keys s), Width = WidthFull\<rparr>]
                in ToComponent h o' options)))"

subsection \<open>The replication controller printer\<close>

text \<open>The inner loop over the containers of the pod template.\<close>

fun Containers_Add :: "component \<Rightarrow> string \<Rightarrow> string \<Rightarrow> component" where
  "Containers_Add (Containers cs) name imageName = Containers (cs @ [(name, imageName)])"
| "Containers_Add c name imageName = c"

fun ReplicationControllerListHandler_containers :: "component \<Rightarrow> Container list \<Rightarrow> component" where
  "ReplicationControllerListHandler_containers containers [] = containers"
| "ReplicationControllerListHandler_containers containers (c # cs) =
     ReplicationControllerListHandler_containers
       (Containers_Add containers (Container_Name c) (Container_Image c)) cs"

text \<open>
  The row of one replication controller.  \<^verbatim>\<open>rc.Spec.Template\<close> is a pointer, and
  \<^verbatim>\<open>rc.Spec.Template.Spec.Containers\<close> dereferences it: on nil the runtime panics.
\<close>

definition ReplicationControllerListHandler_row ::
  "('u, 'p) Helpers \<Rightarrow> ReplicationController \<Rightarrow> component \<Rightarrow> TableRow result" where
  "ReplicationControllerListHandler_row h rc nameLink =
     (let row = fmempty;
          row = fmupd ''Name'' nameLink row;
          row = fmupd ''Labels'' (Labels (ObjectMeta_Labels (RC_ObjectMeta rc))) row;
          status = Sprintf_d (sint (RCStatus_AvailableReplicas (RC_Status rc))) @ ''/'' @
                   Sprintf_d (sint (RCStatus_Replicas (RC_Status rc)));
          row = fmupd ''Status'' (Text status) row;
          ts = ObjectMeta_CreationTimestamp (RC_ObjectMeta rc);
          row = fmupd ''Age'' (Timestamp ts) row;
          containers = Containers []
      in case RCSpec_Template (RC_Spec rc) of
           None \<Rightarrow> Inl NilDereference
         | Some template \<Rightarrow>
             (let containers = ReplicationControllerListHandler_containers containers
                                 (PodSpec_Containers template);
                  row = fmupd ''Containers'' containers row;
                  row = fmupd ''Selector'' (printSelectorMap h (RCSpec_Selector (RC_Spec rc))) row
              in Inr row))"

fun ReplicationControllerListHandler_loop ::
  "('u, 'p) Helpers \<Rightarrow> 'u Options \<Rightarrow> component \<Rightarrow> ReplicationController list \<Rightarrow> component result" where
  "ReplicationControllerListHandler_loop h options tbl [] = Inr tbl"
| "ReplicationControllerListHandler_loop h options tbl (rc # items) =
     (case Link_ForObject options (ReplicationControllerObject (Some rc))
             (ObjectMeta_Name (RC_ObjectMeta rc)) of
        Inl err \<Rightarrow> Inl (Error err)
      | Inr nameLink \<Rightarrow>
          (case ReplicationControllerListHandler_row h rc nameLink of
             Inl panic \<Rightarrow> Inl panic
           | Inr row \<Rightarrow> ReplicationControllerListHandler_loop h options (Table_Add tbl row) items))"

definition ReplicationControllerListHandler ::
  "('u, 'p) Helpers \<Rightarrow> ReplicationController list option \<Rightarrow> 'u Options \<Rightarrow> component result" where
  "ReplicationControllerListHandler h list options =
     (case list of
        None \<Rightarrow> Inl (Error (New ''nil list''))
      | Some items \<Rightarrow>
          (let cols = NewTableCols [''Name'', ''Labels'', ''Status'', ''Age'', ''Containers'', ''Selector''];
               tbl = NewTable ''ReplicationControllers''
                       ''We couldn't find any replication controllers!'' cols
           in ReplicationControllerListHandler_loop h options tbl items))"

text \<open>
  \<^verbatim>\<open>metav1.GetControllerOf\<close> of the Kubernetes library: the first owner reference whose
  \<^verbatim>\<open>Controller\<close> pointer is set and true.
\<close>

definition GetControllerOf :: "OwnerReference list \<Rightarrow> OwnerReference option" where
  "GetControllerOf refs = find (\<lambda>ref. OwnerReference_Controller ref = Some True) refs"

record ReplicationControllerConfiguration =
  RCConfiguration_replicationcontroller :: "ReplicationController option"

definition NewReplicationControllerConfiguration ::
  "ReplicationController option \<Rightarrow> ReplicationControllerConfiguration option" where
  "NewReplicationControllerConfiguration rc = Some \<lparr>RCConfiguration_replicationcontroller = rc\<rparr>"

definition ReplicationControllerConfiguration_Create ::
  "ReplicationControllerConfiguration option \<Rightarrow> 'u Options \<Rightarrow> component result" where
  "ReplicationControllerConfiguration_Create rcc options =
     (case (case rcc of None \<Rightarrow> None | Some c \<Rightarrow> RCConfiguration_replicationcontroller c) of
        None \<Rightarrow> Inl (Error (New ''replicationcontroller is nil''))
      | Some replicationController \<Rightarrow>
          (let sections = [] in
           case (case GetControllerOf (ObjectMeta_OwnerReferences (RC_ObjectMeta replicationController)) of
                   None \<Rightarrow> Inr sections
                 | Some controllerRef \<Rightarrow>
                     (case Link_ForOwner options (ReplicationControllerObject (Some replicationController))
                             controllerRef of
                        Inl err \<Rightarrow> Inl (Error err)
                      | Inr controlledBy \<Rightarrow> Inr (sections @ [(''Controlled By'', controlledBy)]))) of
             Inl err \<Rightarrow> Inl err
           | Inr sections \<Rightarrow>
               (let current = Sprintf_d (sint (RCStatus_ReadyReplicas (RC_Status replicationController)));
                    sections =
                      (case RCSpec_Replicas (RC_Spec replicationController) of
                         None \<Rightarrow> sections
                       | Some desired \<Rightarrow>
                           (let desiredReplicas = Sprintf_d (sint desired);
                                status = ''Current '' @ current @ '' / Desired '' @ desiredReplicas
                            in SummarySections_AddText sections ''Replica Status'' status));
                    replicas = Sprintf_d (sint (RCStatus_Replicas (RC_Status replicationController)));
                    sections = SummarySections_AddText sections ''Replicas'' replicas;
                    summary = NewSummary ''Configuration'' sections
                in Inr summary)))"

record ReplicationControllerStatusGenerator =
  RCStatusGenerator_replicationcontroller :: "ReplicationController option"

definition NewReplicationControllerStatus ::
  "ReplicationController option \<Rightarrow> ReplicationControllerStatusGenerator" where
  "NewReplicationControllerStatus replicationController =
     \<lparr>RCStatusGenerator_replicationcontroller = replicationController\<rparr>"

text \<open>
  \<^verbatim>\<open>ReplicationControllerStatus.Create\<close>: the pods of the controller, counted into a
  quadrant.  A failing \<^verbatim>\<open>quadrant.Set\<close> is replaced by an error of its own.
\<close>

definition ReplicationControllerStatus_Create ::
  "('u, 'p) Helpers \<Rightarrow> ReplicationControllerStatusGenerator \<Rightarrow>
   (Key \<Rightarrow> error + 'u list option) \<Rightarrow> component result" where
  "ReplicationControllerStatus_Create h replicationController store =
     (case RCStatusGenerator_replicationcontroller replicationController of
        None \<Rightarrow> Inl (Error (New ''replicationcontroller is nil''))
      | Some rc \<Rightarrow>
          (let selectors = RCSpec_Selector (RC_Spec rc) in
           case listPods h (ObjectMeta_Namespace (RC_ObjectMeta rc)) selectors
                  (ObjectMeta_UID (RC_ObjectMeta rc)) store of
             Inl err \<Rightarrow> Inl (Error err)
           | Inr pods \<Rightarrow>
               (let ps = createPodStatus h pods;
                    quadrant = NewQuadrant ''Status''
                in case Quadrant_Set h quadrant QuadNW ''Running'' (Sprintf_d (PodStatus_Running ps)) of
                     Inl err \<Rightarrow> Inl (Error (New ''unable to set quadrant nw''))
                   | Inr quadrant \<Rightarrow>
                  (case Quadrant_Set h quadrant QuadNE ''Waiting'' (Sprintf_d (PodStatus_Waiting ps)) of
                     Inl err \<Rightarrow> Inl (Error (New ''unable to set quadrant ne''))
                   | Inr quadrant \<Rightarrow>
                  (case Quadrant_Set h quadrant QuadSW ''Succeeded'' (Sprintf_d (PodStatus_Succeeded ps)) of
                     Inl err \<Rightarrow> Inl (Error (New ''unable to set quadrant sw''))
                   | Inr quadrant \<Rightarrow>
                  (case Quadrant_Set h quadrant QuadSE ''Failed'' (Sprintf_d (PodStatus_Failed ps)) of
                     Inl err \<Rightarrow> Inl (Error (New ''unable to set quadrant se''))
                   | Inr quadrant \<Rightarrow> Inr quadrant))))))"

text \<open>
  \<^verbatim>\<open>ReplicationControllerHandler\<close> has no nil check of its own: a nil argument reaches
  \<^verbatim>\<open>Create\<close>, which returns its error.  After that the argument and its pod template
  are dereferenced.
\<close>

definition ReplicationControllerHandler ::
  "('u, 'p) Helpers \<Rightarrow> ReplicationController option \<Rightarrow> 'u Options \<Rightarrow> component result" where
  "ReplicationControllerHandler h rc options =
     (let o' = NewObject (ReplicationControllerObject rc);
          objectStore = ObjectStore_List options;
          rcConfigGen = NewReplicationControllerConfiguration rc
      in case ReplicationControllerConfiguration_Create rcConfigGen options of
           Inl err \<Rightarrow> Inl err
         | Inr configSummary \<Rightarrow>
             (let o' = RegisterConfig o' configSummary;
                  rcSummaryGen = NewReplicationControllerStatus rc;
                  o' = RegisterItems o'
                         [\<lparr>Func = (\<lambda>_. ReplicationControllerStatus_Create h rcSummaryGen objectStore),
                           Width = WidthQuarter\<rparr>];
                  o' = RegisterItems o'
                         [\<lparr>Func = (\<lambda>_. createPodListView h (ReplicationControllerObject rc) options),
                           Width = WidthFull\<rparr>]
              in case (case rc of None \<Rightarrow> None | Some r \<Rightarrow> RCSpec_Template (RC_Spec r)) of
                   None \<Rightarrow> Inl NilDereference
                 | Some template \<Rightarrow>
                     (let o' = EnablePodTemplate o' template;
                          o' = EnableEvents o'
                      in ToComponent h o' options)))"

subsection \<open>Concrete dependencies and objects\<close>

text \<open>
  A link generator in the way of the tests' \<^verbatim>\<open>PathForObject\<close>: the link of an object is
  built from its name, and there is no link for the name \<open>''broken''\<close>.
\<close>

definition example_ForObject :: "Object \<Rightarrow> string \<Rightarrow> error + component" where
  "example_ForObject object text =
     (if text = ''broken'' then Inl (New ''no link'') else Inr (Link [] text (''/'' @ text)))"

definition example_ForOwner :: "Object \<Rightarrow> OwnerReference \<Rightarrow> error + component" where
  "example_ForOwner object ref =
     (if OwnerReference_Name ref = ''broken'' then Inl (New ''no owner link'')
      else Inr (Link [] (OwnerReference_Name ref) (''/'' @ OwnerReference_Name ref)))"

definition example_ObjectMeta :: "string \<Rightarrow> OwnerReference list \<Rightarrow> ObjectMeta" where
  "example_ObjectMeta name owners =
     \<lparr>ObjectMeta_Name = name, ObjectMeta_Namespace = ''default'', ObjectMeta_UID = ''uid-'' @ name,
      ObjectMeta_CreationTimestamp = Time 1547211430,
      ObjectMeta_Labels = fmupd ''foo'' ''bar'' fmempty, ObjectMeta_OwnerReferences = owners\<rparr>"

definition example_Template :: PodTemplateSpec where
  "example_Template =
     \<lparr>PodTemplateSpec_ObjectMeta = example_ObjectMeta ''template'' [],
      PodSpec_Containers = [\<lparr>Container_Name = ''nginx'', Container_Image = ''nginx:1.15''\<rparr>]\<rparr>"

definition example_Owner :: "string \<Rightarrow> string \<Rightarrow> string \<Rightarrow> OwnerReference" where
  "example_Owner apiVersion kind name =
     \<lparr>OwnerReference_APIVersion = apiVersion, OwnerReference_Kind = kind,
      OwnerReference_Name = name, OwnerReference_UID = ''uid-'' @ name,
      OwnerReference_Controller = Some True\<rparr>"

definition example_Job :: "string \<Rightarrow> OwnerReference list \<Rightarrow> Job" where
  "example_Job name owners =
     \<lparr>Job_TypeMeta = \<lparr>TypeMeta_Kind = ''Job'', TypeMeta_APIVersion = ''batch/v1''\<rparr>,
      Job_ObjectMeta = example_ObjectMeta name owners,
      Job_Spec = \<lparr>JobSpec_Parallelism = Some 2, JobSpec_Completions = Some 3,
                  JobSpec_BackoffLimit = None, JobSpec_Template = example_Template\<rparr>,
      Job_Status = \<lparr>JobStatus_Conditions = [], JobStatus_StartTime = Some (Time 1547211500),
                    JobStatus_CompletionTime = None, JobStatus_Succeeded = 1\<rparr>\<rparr>"

definition example_Secret :: "string \<Rightarrow> (string, 8 word list) fmap \<Rightarrow> Secret" where
  "example_Secret name secretMap =
     \<lparr>Secret_TypeMeta = \<lparr>TypeMeta_Kind = ''Secret'', TypeMeta_APIVersion = ''v1''\<rparr>,
      Secret_ObjectMeta = example_ObjectMeta name [],
      Secret_Data = secretMap, Secret_Type = ''Opaque''\<rparr>"

definition example_ReplicationController ::
  "string \<Rightarrow> OwnerReference list \<Rightarrow> PodTemplateSpec option \<Rightarrow> ReplicationController" where
  "example_ReplicationController name owners template =
     \<lparr>RC_TypeMeta = \<lparr>TypeMeta_Kind = ''ReplicationController'', TypeMeta_APIVersion = ''v1''\<rparr>,
      RC_ObjectMeta = example_ObjectMeta name owners,
      RC_Spec = \<lparr>RCSpec_Replicas = Some 3, RCSpec_Selector = fmupd ''app'' ''myapp'' fmempty,
                 RCSpec_Template = template\<rparr>,
      RC_Status = \<lparr>RCStatus_Replicas = 3, RCStatus_AvailableReplicas = 0,
                   RCStatus_ReadyReplicas = 2\<rparr>\<rparr>"

text \<open>
  An object store that holds three jobs in the namespace \<open>''default''\<close> under the key of
  \<^verbatim>\<open>createJobListView\<close> and fails for every other key.  Its unstructured items are the
  jobs themselves.
\<close>

definition example_List :: "Key \<Rightarrow> error + Job list option" where
  "example_List key =
     (if Key_Namespace key = ''default'' \<and> Key_APIVersion key = ''batch/v1beta1'' \<and>
         Key_Kind key = ''Job''
      then Inr (Some [example_Job ''one'' [example_Owner ''batch/v1beta1'' ''CronJob'' ''cron''],
                      example_Job ''two'' [example_Owner ''v1'' ''Pod'' ''cron''],
                      example_Job ''three'' [example_Owner ''batch/v1beta1'' ''CronJob'' ''cron'',
                                             example_Owner ''batch/v1beta1'' ''CronJob'' ''cron'']])
      else Inl (New ''store is down''))"

definition example_Options :: "Job Options" where
  "example_Options =
     \<lparr>DisableLabels = False, Link_ForObject = example_ForObject,
      Link_ForOwner = example_ForOwner, ObjectStore_List = example_List\<rparr>"

text \<open>The readers of the accessor on the typed objects; a nil pointer has no metadata.\<close>

fun example_meta :: "Object \<Rightarrow> (TypeMeta \<times> ObjectMeta) option" where
  "example_meta (JobObject (Some job)) = Some (Job_TypeMeta job, Job_ObjectMeta job)"
| "example_meta (SecretObject (Some secret)) = Some (Secret_TypeMeta secret, Secret_ObjectMeta secret)"
| "example_meta (ReplicationControllerObject (Some rc)) = Some (RC_TypeMeta rc, RC_ObjectMeta rc)"
| "example_meta object = None"

definition example_accessor ::
  "(TypeMeta \<times> ObjectMeta \<Rightarrow> string) \<Rightarrow> Object \<Rightarrow> error + string" where
  "example_accessor field object =
     (case example_meta object of
        None \<Rightarrow> Inl (New ''object does not implement the Object interfaces'')
      | Some m \<Rightarrow> Inr (field m))"

definition example_Helpers :: "(Job, nat) Helpers" where
  "example_Helpers =
     \<lparr>PtrInt32ToString = (\<lambda>p. case p of None \<Rightarrow> ''0'' | Some i \<Rightarrow> Sprintf_d (sint i)),
      printSelectorMap = (\<lambda>selector. View ''selectors'' [Labels selector]),
      createPodListView = (\<lambda>object options. Inr (View ''pods'' [])),
      ToComponent = (\<lambda>object options.
        Inr (View ''object'' (case PrinterObject_config object of None \<Rightarrow> [] | Some c \<Rightarrow> [c]))),
      FromUnstructured = Inr,
      copyObjectMeta = (\<lambda>job item. Inr (job\<lparr>Job_ObjectMeta := Job_ObjectMeta item\<rparr>)),
      listPods = (\<lambda>namespace selector uid store. Inr []),
      createPodStatus = (\<lambda>pods. \<lparr>PodStatus_Running = int (length pods), PodStatus_Waiting = 0,
                                  PodStatus_Succeeded = 0, PodStatus_Failed = 0\<rparr>),
      Quadrant_Set = (\<lambda>quadrant pos label val. Inr quadrant),
      accessor_Namespace = example_accessor (\<lambda>m. ObjectMeta_Namespace (snd m)),
      accessor_APIVersion = example_accessor (\<lambda>m. TypeMeta_APIVersion (fst m)),
      accessor_Kind = example_accessor (\<lambda>m. TypeMeta_Kind (fst m)),
      accessor_Name = example_accessor (\<lambda>m. ObjectMeta_Name (snd m))\<rparr>"

text \<open>A cron job stands for the owner whose jobs \<^verbatim>\<open>createJobListView\<close> collects.\<close>

definition example_CronJob :: Object where
  "example_CronJob =
     JobObject (Some ((example_Job ''cron'' [])
       \<lparr>Job_TypeMeta := \<lparr>TypeMeta_Kind = ''CronJob'', TypeMeta_APIVersion = ''batch/v1beta1''\<rparr>\<rparr>))"

section \<open>Properties\<close>

lemmas example_defs =
  example_ForObject_def example_ForOwner_def example_ObjectMeta_def example_Template_def
  example_Owner_def example_Job_def example_Secret_def example_ReplicationController_def
  example_List_def example_Options_def example_accessor_def example_Helpers_def
  example_CronJob_def

lemmas component_defs =
  NewTableCols_def NewTable_def SummarySections_Add_def SummarySections_AddText_def
  NewSummary_def Sprintf_d_def digits.simps digit_def Let_def

subsection \<open>The loops of the list handlers\<close>

text \<open>When every link can be built, a loop adds one row per item, in the order of the items.\<close>

lemma JobListHandler_loop_rows:
  assumes "\<forall>job \<in> set items. \<exists>l. Link_ForObject opts (JobObject (Some job))
             (ObjectMeta_Name (Job_ObjectMeta job)) = Inr l"
  shows "JobListHandler_loop h opts (Table t p c rows) items =
    Inr (Table t p c (rows @ map (\<lambda>job. JobListHandler_row h job
       (projr (Link_ForObject opts (JobObject (Some job)) (ObjectMeta_Name (Job_ObjectMeta job)))))
       items))"
  using assms
proof (induction items arbitrary: rows)
  case Nil
  then show ?case by simp
next
  case (Cons job items)
  from Cons.prems obtain l where
    l: "Link_ForObject opts (JobObject (Some job)) (ObjectMeta_Name (Job_ObjectMeta job)) = Inr l"
    by auto
  from Cons.prems have rest: "\<forall>job \<in> set items. \<exists>l. Link_ForObject opts (JobObject (Some job))
      (ObjectMeta_Name (Job_ObjectMeta job)) = Inr l"
    by simp
  show ?case
    by (simp add: l Cons.IH [OF rest])
qed

lemma SecretListHandler_loop_rows:
  assumes "\<forall>secret \<in> set items. \<exists>l. Link_ForObject opts (SecretObject (Some secret))
             (ObjectMeta_Name (Secret_ObjectMeta secret)) = Inr l"
  shows "SecretListHandler_loop opts (Table t p c rows) items =
    Inr (Table t p c (rows @ map (\<lambda>secret. SecretListHandler_row secret
       (projr (Link_ForObject opts (SecretObject (Some secret))
                 (ObjectMeta_Name (Secret_ObjectMeta secret))))) items))"
  using assms
proof (induction items arbitrary: rows)
  case Nil
  then show ?case by simp
next
  case (Cons secret items)
  from Cons.prems obtain l where
    l: "Link_ForObject opts (SecretObject (Some secret))
          (ObjectMeta_Name (Secret_ObjectMeta secret)) = Inr l"
    by auto
  from Cons.prems have rest: "\<forall>secret \<in> set items. \<exists>l. Link_ForObject opts
      (SecretObject (Some secret)) (ObjectMeta_Name (Secret_ObjectMeta secret)) = Inr l"
    by simp
  show ?case
    by (simp add: l Cons.IH [OF rest])
qed

lemma ReplicationControllerListHandler_row_template:
  "RCSpec_Template (RC_Spec rc) = Some template \<Longrightarrow>
   \<exists>row. ReplicationControllerListHandler_row h rc l = Inr row"
  by (simp add: ReplicationControllerListHandler_row_def Let_def)

lemma ReplicationControllerListHandler_loop_rows:
  assumes "\<forall>rc \<in> set items. \<exists>l. Link_ForObject opts (ReplicationControllerObject (Some rc))
             (ObjectMeta_Name (RC_ObjectMeta rc)) = Inr l"
    and "\<forall>rc \<in> set items. RCSpec_Template (RC_Spec rc) \<noteq> None"
  shows "ReplicationControllerListHandler_loop h opts (Table t p c rows) items =
    Inr (Table t p c (rows @ map (\<lambda>rc. projr (ReplicationControllerListHandler_row h rc
       (projr (Link_ForObject opts (ReplicationControllerObject (Some rc))
                 (ObjectMeta_Name (RC_ObjectMeta rc)))))) items))"
  using assms
proof (induction items arbitrary: rows)
  case Nil
  then show ?case by simp
next
  case (Cons rc items)
  from Cons.prems obtain l where
    l: "Link_ForObject opts (ReplicationControllerObject (Some rc))
          (ObjectMeta_Name (RC_ObjectMeta rc)) = Inr l"
    by auto
  from Cons.prems obtain template where "RCSpec_Template (RC_Spec rc) = Some template"
    by auto
  then obtain row where row: "ReplicationControllerListHandler_row h rc l = Inr row"
    using ReplicationControllerListHandler_row_template by blast
  from Cons.prems have rest:
    "\<forall>rc \<in> set items. \<exists>l. Link_ForObject opts (ReplicationControllerObject (Some rc))
       (ObjectMeta_Name (RC_ObjectMeta rc)) = Inr l"
    "\<forall>rc \<in> set items. RCSpec_Template (RC_Spec rc) \<noteq> None"
    by simp_all
  show ?case
    by (simp add: l row Cons.IH [OF rest])
qed

subsection \<open>Nil arguments\<close>

text \<open>
  Claim C1.  Called with a nil list or a nil object, \<^verbatim>\<open>JobListHandler\<close>,
  \<^verbatim>\<open>SecretListHandler\<close>, \<^verbatim>\<open>SecretHandler\<close> and \<^verbatim>\<open>ReplicationControllerListHandler\<close> return
  the error of their nil check, and \<^verbatim>\<open>ReplicationControllerHandler\<close> returns the error of
  \<^verbatim>\<open>ReplicationControllerConfiguration.Create\<close>.  \<^verbatim>\<open>JobHandler\<close> has no such check: it
  dereferences the nil pointer and panics instead of returning an error.
\<close>

theorem nil_argument_handlers:
  "JobListHandler h None opts = Inl (Error (New ''job list is nil'')) \<and>
   SecretListHandler None opts = Inl (Error (New ''list of secrets is nil'')) \<and>
   SecretHandler h keys None opts = Inl (Error (New ''secret is nil'')) \<and>
   ReplicationControllerListHandler h None opts = Inl (Error (New ''nil list'')) \<and>
   ReplicationControllerHandler h None opts = Inl (Error (New ''replicationcontroller is nil'')) \<and>
   JobHandler h None opts = Inl NilDereference"
  by (simp add: JobListHandler_def SecretListHandler_def SecretHandler_def
      ReplicationControllerListHandler_def ReplicationControllerHandler_def
      NewReplicationControllerConfiguration_def ReplicationControllerConfiguration_Create_def
      JobHandler_def)

subsection \<open>Rows of the list handlers\<close>

text \<open>
  Claim C2, as stated, fails for \<^verbatim>\<open>ReplicationControllerListHandler\<close>: for an item whose
  \<^verbatim>\<open>Spec.Template\<close> is nil the link is built, and then the handler panics on
  \<^verbatim>\<open>rc.Spec.Template.Spec.Containers\<close> and returns no table.
\<close>

theorem replication_controller_list_nil_template:
  "Link_ForObject example_Options
     (ReplicationControllerObject (Some (example_ReplicationController ''rc'' [] None)))
     (ObjectMeta_Name (RC_ObjectMeta (example_ReplicationController ''rc'' [] None)))
     = Inr (Link [] ''rc'' ''/rc'') \<and>
   ReplicationControllerListHandler example_Helpers
     (Some [example_ReplicationController ''rc'' [] None]) example_Options = Inl NilDereference"
  by (simp add: example_defs ReplicationControllerListHandler_def
      ReplicationControllerListHandler_row_def component_defs)

text \<open>
  Claim C2, amended.  For a non-nil list of \<open>N\<close> items on which every \<^verbatim>\<open>Link.ForObject\<close>
  call succeeds and, for \<^verbatim>\<open>ReplicationControllerListHandler\<close>, in which every item has a
  pod template, each list handler returns its table with exactly \<open>N\<close> rows, and the i-th
  row is the row built from the i-th item and its link.
\<close>

theorem list_handler_rows:
  assumes "\<forall>job \<in> set jobs. \<exists>l. Link_ForObject opts (JobObject (Some job))
             (ObjectMeta_Name (Job_ObjectMeta job)) = Inr l"
    and "\<forall>secret \<in> set secrets. \<exists>l. Link_ForObject opts (SecretObject (Some secret))
             (ObjectMeta_Name (Secret_ObjectMeta secret)) = Inr l"
    and "\<forall>rc \<in> set rcs. \<exists>l. Link_ForObject opts (ReplicationControllerObject (Some rc))
             (ObjectMeta_Name (RC_ObjectMeta rc)) = Inr l"
    and "\<forall>rc \<in> set rcs. RCSpec_Template (RC_Spec rc) \<noteq> None"
  shows "(\<exists>rows. JobListHandler h (Some jobs) opts =
              Inr (Table ''Jobs'' ''We couldn't find any jobs!'' JobCols rows) \<and>
            length rows = length jobs \<and>
            rows = map (\<lambda>job. JobListHandler_row h job
              (projr (Link_ForObject opts (JobObject (Some job))
                        (ObjectMeta_Name (Job_ObjectMeta job))))) jobs) \<and>
         (\<exists>rows. SecretListHandler (Some secrets) opts =
              Inr (Table ''Secrets'' ''We couldn't find any secrets!'' secretTableCols rows) \<and>
            length rows = length secrets \<and>
            rows = map (\<lambda>secret. SecretListHandler_row secret
              (projr (Link_ForObject opts (SecretObject (Some secret))
                        (ObjectMeta_Name (Secret_ObjectMeta secret))))) secrets) \<and>
         (\<exists>rows. ReplicationControllerListHandler h (Some rcs) opts =
              Inr (Table ''ReplicationControllers''
                     ''We couldn't find any replication controllers!''
                     [''Name'', ''Labels'', ''Status'', ''Age'', ''Containers'', ''Selector''] rows) \<and>
            length rows = length rcs \<and>
            rows = map (\<lambda>rc. projr (ReplicationControllerListHandler_row h rc
              (projr (Link_ForObject opts (ReplicationControllerObject (Some rc))
                        (ObjectMeta_Name (RC_ObjectMeta rc)))))) rcs)"
proof -
  have j: "JobListHandler h (Some jobs) opts =
      Inr (Table ''Jobs'' ''We couldn't find any jobs!'' JobCols
        (map (\<lambda>job. JobListHandler_row h job
              (projr (Link_ForObject opts (JobObject (Some job))
                        (ObjectMeta_Name (Job_ObjectMeta job))))) jobs))"
    by (simp add: JobListHandler_def NewTable_def JobListHandler_loop_rows [OF assms(1)])
  have s: "SecretListHandler (Some secrets) opts =
      Inr (Table ''Secrets'' ''We couldn't find any secrets!'' secretTableCols
        (map (\<lambda>secret. SecretListHandler_row secret
              (projr (Link_ForObject opts (SecretObject (Some secret))
                        (ObjectMeta_Name (Secret_ObjectMeta secret))))) secrets))"
    by (simp add: SecretListHandler_def NewTable_def SecretListHandler_loop_rows [OF assms(2)])
  have r: "ReplicationControllerListHandler h (Some rcs) opts =
      Inr (Table ''ReplicationControllers'' ''We couldn't find any replication controllers!''
             [''Name'', ''Labels'', ''Status'', ''Age'', ''Containers'', ''Selector'']
        (map (\<lambda>rc. projr (ReplicationControllerListHandler_row h rc
              (projr (Link_ForObject opts (ReplicationControllerObject (Some rc))
                        (ObjectMeta_Name (RC_ObjectMeta rc)))))) rcs))"
    by (simp add: ReplicationControllerListHandler_def NewTable_def NewTableCols_def
        ReplicationControllerListHandler_loop_rows [OF assms(3) assms(4)])
  show ?thesis
    by (simp add: j s r)
qed

text \<open>
  Two jobs, one secret and three replication controllers with templates: every link is
  built, and the tables have two, one and three rows.
\<close>

theorem list_handler_rows_witness:
  "example_ForObject (JobObject (Some (example_Job ''one'' []))) ''one'' = Inr (Link [] ''one'' ''/one'') \<and>
   example_ForObject (JobObject (Some (example_Job ''two'' []))) ''two'' = Inr (Link [] ''two'' ''/two'') \<and>
   RCSpec_Template (RC_Spec (example_ReplicationController ''a'' [] (Some example_Template)))
     = Some example_Template \<and>
   Table_Rows (projr (JobListHandler example_Helpers
       (Some [example_Job ''one'' [], example_Job ''two'' []]) example_Options)) =
     [JobListHandler_row example_Helpers (example_Job ''one'' []) (Link [] ''one'' ''/one''),
      JobListHandler_row example_Helpers (example_Job ''two'' []) (Link [] ''two'' ''/two'')] \<and>
   length (Table_Rows (projr (SecretListHandler
       (Some [example_Secret ''s'' fmempty]) example_Options))) = 1 \<and>
   length (Table_Rows (projr (ReplicationControllerListHandler example_Helpers
       (Some [example_ReplicationController ''a'' [] (Some example_Template),
              example_ReplicationController ''b'' [] (Some example_Template),
              example_ReplicationController ''c'' [] (Some example_Template)]) example_Options))) = 3"
  using list_handler_rows [of "[example_Job ''one'' [], example_Job ''two'' []]" example_Options
      "[example_Secret ''s'' fmempty]"
      "[example_ReplicationController ''a'' [] (Some example_Template),
        example_ReplicationController ''b'' [] (Some example_Template),
        example_ReplicationController ''c'' [] (Some example_Template)]" example_Helpers]
  by (simp add: example_ForObject_def example_ObjectMeta_def example_Job_def example_Secret_def
      example_ReplicationController_def example_Options_def)

subsection \<open>Determinism and the order of a map's keys\<close>

lemma secretData_loop_rows:
  "secretData_loop (Table t p c rows) keys =
     Table t p c (rows @ map (\<lambda>key. fmupd ''Key'' (Text key) fmempty) keys)"
  by (induction keys arbitrary: rows) simp_all

lemma secretData_table:
  "secretData keys secret =
     Inr (Table ''Data'' ''This secret has no data!'' secretDataCols
            (map (\<lambda>key. fmupd ''Key'' (Text key) fmempty) keys))"
  by (simp add: secretData_def NewTable_def secretData_loop_rows)

text \<open>Two orders of the same map are permutations of each other.\<close>

lemma range_order_mset:
  assumes "range_order m keys" and "range_order m keys'"
  shows "mset keys = mset keys'"
proof -
  from assms have "distinct keys" "distinct keys'" "fset_of_list keys = fset_of_list keys'"
    by (simp_all add: range_order_def)
  then have "set keys = set keys'"
    by (metis fset_of_list.rep_eq)
  with \<open>distinct keys\<close> \<open>distinct keys'\<close> show ?thesis
    by (simp add: set_eq_iff_mset_eq_distinct)
qed

text \<open>
  Claim C3, as stated, fails for \<^verbatim>\<open>secretData\<close>: a secret with the keys \<open>a\<close> and \<open>b\<close> can be
  visited in both orders, and the two runs return tables whose rows are in different
  order.
\<close>

theorem secret_data_order_differs:
  "range_order (Secret_Data (example_Secret ''s'' (fmupd ''a'' [1, 2] (fmupd ''b'' [3] fmempty))))
     [''a'', ''b''] \<and>
   range_order (Secret_Data (example_Secret ''s'' (fmupd ''a'' [1, 2] (fmupd ''b'' [3] fmempty))))
     [''b'', ''a''] \<and>
   secretData [''a'', ''b''] (example_Secret ''s'' (fmupd ''a'' [1, 2] (fmupd ''b'' [3] fmempty))) =
     Inr (Table ''Data'' ''This secret has no data!'' [''Key'']
            [fmupd ''Key'' (Text ''a'') fmempty, fmupd ''Key'' (Text ''b'') fmempty]) \<and>
   secretData [''b'', ''a''] (example_Secret ''s'' (fmupd ''a'' [1, 2] (fmupd ''b'' [3] fmempty))) =
     Inr (Table ''Data'' ''This secret has no data!'' [''Key'']
            [fmupd ''Key'' (Text ''b'') fmempty, fmupd ''Key'' (Text ''a'') fmempty]) \<and>
   secretData [''a'', ''b''] (example_Secret ''s'' (fmupd ''a'' [1, 2] (fmupd ''b'' [3] fmempty))) \<noteq>
   secretData [''b'', ''a''] (example_Secret ''s'' (fmupd ''a'' [1, 2] (fmupd ''b'' [3] fmempty)))"
proof -
  have neq: "fmupd ''Key'' (Text ''a'') fmempty \<noteq> fmupd ''Key'' (Text ''b'') (fmempty :: TableRow)"
  proof
    assume "fmupd ''Key'' (Text ''a'') fmempty = fmupd ''Key'' (Text ''b'') (fmempty :: TableRow)"
    then have "fmlookup (fmupd ''Key'' (Text ''a'') fmempty) ''Key'' =
               fmlookup (fmupd ''Key'' (Text ''b'') (fmempty :: TableRow)) ''Key''"
      by simp
    then show False by simp
  qed
  have "{|''b'', ''a''|} = {|''a'', ''b''|}"
    by auto
  then show ?thesis
    using neq
    by (simp add: range_order_def example_Secret_def secretData_table secretDataCols_def
        NewTableCols_def)
qed

text \<open>
  Claim C3, amended.  The table of \<^verbatim>\<open>secretData\<close> is determined by the secret up to the
  order of its rows: any two runs on the same secret return the table \<open>Data\<close> with the
  same placeholder, the column \<open>Key\<close> and the same rows, one per key of \<^verbatim>\<open>Data\<close>; only their
  order, that of the map iteration, may differ.  No other printer ranges over a map.
\<close>

theorem secret_data_rows_up_to_order:
  assumes "range_order (Secret_Data secret) keys"
    and "range_order (Secret_Data secret) keys'"
  shows "\<exists>rows rows'.
     secretData keys secret = Inr (Table ''Data'' ''This secret has no data!'' [''Key''] rows) \<and>
     secretData keys' secret = Inr (Table ''Data'' ''This secret has no data!'' [''Key''] rows') \<and>
     mset rows = mset rows' \<and>
     fset_of_list rows = (\<lambda>key. fmupd ''Key'' (Text key) fmempty) |`| fmdom (Secret_Data secret) \<and>
     length rows = fcard (fmdom (Secret_Data secret))"
proof -
  let ?row = "\<lambda>key. fmupd ''Key'' (Text key) (fmempty :: TableRow)"
  have m: "mset (map ?row keys) = mset (map ?row keys')"
    using range_order_mset [OF assms] by (metis mset_map)
  have f: "fset_of_list (map ?row keys) = ?row |`| fmdom (Secret_Data secret)"
    using assms(1) by (simp add: range_order_def fset_of_list_map [symmetric])
  from assms(1) have "distinct keys"
    by (simp add: range_order_def)
  then have "fcard (fset_of_list keys) = length keys"
    by (simp add: fcard.rep_eq fset_of_list.rep_eq distinct_card)
  then have l: "length (map ?row keys) = fcard (fmdom (Secret_Data secret))"
    using assms(1) by (simp add: range_order_def)
  show ?thesis
    using m f l
    by (simp add: secretData_table secretDataCols_def NewTableCols_def del: fset_of_list_map)
qed

theorem secret_data_rows_up_to_order_witness:
  "range_order (Secret_Data (example_Secret ''s'' (fmupd ''a'' [1, 2] (fmupd ''b'' [3] fmempty))))
     [''a'', ''b''] \<and>
   range_order (Secret_Data (example_Secret ''s'' (fmupd ''a'' [1, 2] (fmupd ''b'' [3] fmempty))))
     [''b'', ''a''] \<and>
   mset (Table_Rows (projr (secretData [''a'', ''b'']
           (example_Secret ''s'' (fmupd ''a'' [1, 2] (fmupd ''b'' [3] fmempty)))))) =
   mset (Table_Rows (projr (secretData [''b'', ''a'']
           (example_Secret ''s'' (fmupd ''a'' [1, 2] (fmupd ''b'' [3] fmempty))))))"
proof -
  have s: "{|''b'', ''a''|} = {|''a'', ''b''|}"
    by auto
  have a: "range_order
     (Secret_Data (example_Secret ''s'' (fmupd ''a'' [1, 2] (fmupd ''b'' [3] fmempty))))
     [''a'', ''b'']"
    by (simp add: range_order_def example_Secret_def)
  have b: "range_order
     (Secret_Data (example_Secret ''s'' (fmupd ''a'' [1, 2] (fmupd ''b'' [3] fmempty))))
     [''b'', ''a'']"
    using s by (simp add: range_order_def example_Secret_def)
  show ?thesis
    using a b secret_data_rows_up_to_order [OF a b] by auto
qed

subsection \<open>Where errors come from\<close>

lemma JobListHandler_loop_error:
  "JobListHandler_loop h opts table items = Inl (Error e) \<Longrightarrow>
   \<exists>job \<in> set items. Link_ForObject opts (JobObject (Some job))
      (ObjectMeta_Name (Job_ObjectMeta job)) = Inl e"
  by (induction items arbitrary: table) (auto split: sum.splits)

lemma SecretListHandler_loop_error:
  "SecretListHandler_loop opts table items = Inl (Error e) \<Longrightarrow>
   \<exists>secret \<in> set items. Link_ForObject opts (SecretObject (Some secret))
      (ObjectMeta_Name (Secret_ObjectMeta secret)) = Inl e"
  by (induction items arbitrary: table) (auto split: sum.splits)

lemma ReplicationControllerListHandler_row_no_error:
  "ReplicationControllerListHandler_row h rc l \<noteq> Inl (Error e)"
  by (simp add: ReplicationControllerListHandler_row_def Let_def split: option.splits)

lemma ReplicationControllerListHandler_loop_error:
  "ReplicationControllerListHandler_loop h opts table items = Inl (Error e) \<Longrightarrow>
   \<exists>rc \<in> set items. Link_ForObject opts (ReplicationControllerObject (Some rc))
      (ObjectMeta_Name (RC_ObjectMeta rc)) = Inl e"
  by (induction items arbitrary: table)
     (auto split: sum.splits simp: ReplicationControllerListHandler_row_no_error)

text \<open>
  Claim C4, as stated, fails: \<^verbatim>\<open>JobListHandler\<close> returns an error for a non-nil list with
  a job whose link cannot be built, and \<^verbatim>\<open>ReplicationControllerConfiguration.Create\<close> for
  a non-nil replication controller whose owner link cannot be built.
\<close>

theorem non_nil_input_link_errors:
  "JobListHandler example_Helpers (Some [example_Job ''broken'' []]) example_Options =
     Inl (Error (New ''no link'')) \<and>
   ReplicationControllerConfiguration_Create
     (NewReplicationControllerConfiguration
        (Some (example_ReplicationController ''rc'' [example_Owner ''v1'' ''Owner'' ''broken'']
                 (Some example_Template))))
     example_Options = Inl (Error (New ''no owner link''))"
  by (simp add: example_defs JobListHandler_def NewTable_def
      ReplicationControllerConfiguration_Create_def NewReplicationControllerConfiguration_def
      GetControllerOf_def)

text \<open>
  Claim C4, amended.  For a non-nil input a printer returns an error only when a link
  call it makes returns that error: a list handler only if \<^verbatim>\<open>Link.ForObject\<close> failed with
  it for one of the items, \<^verbatim>\<open>ReplicationControllerConfiguration.Create\<close> only if the
  replication controller has a controller reference and \<^verbatim>\<open>Link.ForOwner\<close> failed with it.
  \<^verbatim>\<open>createJobConfiguration\<close>, \<^verbatim>\<open>createJobStatus\<close>, \<^verbatim>\<open>createJobConditions\<close>,
  \<^verbatim>\<open>secretConfiguration\<close> and \<^verbatim>\<open>secretData\<close> never return an error.
\<close>

theorem errors_only_from_links:
  "(JobListHandler h (Some jobs) opts = Inl (Error e) \<longrightarrow>
      (\<exists>job \<in> set jobs. Link_ForObject opts (JobObject (Some job))
          (ObjectMeta_Name (Job_ObjectMeta job)) = Inl e)) \<and>
   (SecretListHandler (Some secrets) opts = Inl (Error e) \<longrightarrow>
      (\<exists>secret \<in> set secrets. Link_ForObject opts (SecretObject (Some secret))
          (ObjectMeta_Name (Secret_ObjectMeta secret)) = Inl e)) \<and>
   (ReplicationControllerListHandler h (Some rcs) opts = Inl (Error e) \<longrightarrow>
      (\<exists>rc \<in> set rcs. Link_ForObject opts (ReplicationControllerObject (Some rc))
          (ObjectMeta_Name (RC_ObjectMeta rc)) = Inl e)) \<and>
   (ReplicationControllerConfiguration_Create
        (Some \<lparr>RCConfiguration_replicationcontroller = Some rc\<rparr>) opts = Inl (Error e) \<longrightarrow>
      (\<exists>controllerRef.
          GetControllerOf (ObjectMeta_OwnerReferences (RC_ObjectMeta rc)) = Some controllerRef \<and>
          Link_ForOwner opts (ReplicationControllerObject (Some rc)) controllerRef = Inl e)) \<and>
   (\<exists>summary. createJobConfiguration h job = Inr summary) \<and>
   (\<exists>summary. createJobStatus job = Inr summary) \<and>
   (\<exists>table. createJobConditions conditions = Inr table) \<and>
   (\<exists>summary. secretConfiguration secret = Inr summary) \<and>
   (\<exists>table. secretData keys secret = Inr table)"
proof -
  have c: "ReplicationControllerConfiguration_Create
        (Some \<lparr>RCConfiguration_replicationcontroller = Some rc\<rparr>) opts = Inl (Error e) \<longrightarrow>
      (\<exists>controllerRef.
          GetControllerOf (ObjectMeta_OwnerReferences (RC_ObjectMeta rc)) = Some controllerRef \<and>
          Link_ForOwner opts (ReplicationControllerObject (Some rc)) controllerRef = Inl e)"
    by (auto simp: ReplicationControllerConfiguration_Create_def Let_def
        split: option.splits sum.splits)
  show ?thesis
    using c
    by (auto simp: JobListHandler_def SecretListHandler_def ReplicationControllerListHandler_def
        createJobConfiguration_def createJobStatus_def createJobConditions_def
        secretConfiguration_def secretData_def Let_def
        dest: JobListHandler_loop_error SecretListHandler_loop_error
          ReplicationControllerListHandler_loop_error)
qed

theorem errors_only_from_links_witness:
  "JobListHandler example_Helpers (Some [example_Job ''broken'' []]) example_Options =
     Inl (Error (New ''no link'')) \<and>
   Link_ForObject example_Options (JobObject (Some (example_Job ''broken'' []))) ''broken'' =
     Inl (New ''no link'') \<and>
   SecretListHandler (Some [example_Secret ''broken'' fmempty]) example_Options =
     Inl (Error (New ''no link'')) \<and>
   Link_ForObject example_Options (SecretObject (Some (example_Secret ''broken'' fmempty)))
     ''broken'' = Inl (New ''no link'') \<and>
   ReplicationControllerListHandler example_Helpers
     (Some [example_ReplicationController ''broken'' [] (Some example_Template)]) example_Options =
     Inl (Error (New ''no link'')) \<and>
   Link_ForObject example_Options
     (ReplicationControllerObject
        (Some (example_ReplicationController ''broken'' [] (Some example_Template))))
     ''broken'' = Inl (New ''no link'') \<and>
   ReplicationControllerConfiguration_Create
     (Some \<lparr>RCConfiguration_replicationcontroller =
        Some (example_ReplicationController ''rc'' [example_Owner ''v1'' ''Owner'' ''broken'']
                 (Some example_Template))\<rparr>)
     example_Options = Inl (Error (New ''no owner link'')) \<and>
   Link_ForOwner example_Options
     (ReplicationControllerObject
        (Some (example_ReplicationController ''rc'' [example_Owner ''v1'' ''Owner'' ''broken'']
                 (Some example_Template))))
     (example_Owner ''v1'' ''Owner'' ''broken'') = Inl (New ''no owner link'')"
  using errors_only_from_links [of example_Helpers "[example_Job ''broken'' []]" example_Options
      "New ''no link''" "[example_Secret ''broken'' fmempty]"
      "[example_ReplicationController ''broken'' [] (Some example_Template)]"]
    errors_only_from_links [of example_Helpers _ example_Options "New ''no owner link''" _ _
      "example_ReplicationController ''rc'' [example_Owner ''v1'' ''Owner'' ''broken'']
                 (Some example_Template)"]
  by (simp add: example_defs JobListHandler_def SecretListHandler_def
      ReplicationControllerListHandler_def NewTable_def
      ReplicationControllerConfiguration_Create_def GetControllerOf_def)

subsection \<open>Failing dependencies\<close>

lemma JobListHandler_loop_fails:
  assumes "\<forall>job \<in> set pre. \<exists>l. Link_ForObject opts (JobObject (Some job))
             (ObjectMeta_Name (Job_ObjectMeta job)) = Inr l"
    and "Link_ForObject opts (JobObject (Some job)) (ObjectMeta_Name (Job_ObjectMeta job)) = Inl e"
  shows "JobListHandler_loop h opts table (pre @ job # post) = Inl (Error e)"
  using assms(1)
proof (induction pre arbitrary: table)
  case Nil
  show ?case by (simp add: assms(2))
next
  case (Cons a pre)
  then show ?case by auto
qed

lemma SecretListHandler_loop_fails:
  assumes "\<forall>secret \<in> set pre. \<exists>l. Link_ForObject opts (SecretObject (Some secret))
             (ObjectMeta_Name (Secret_ObjectMeta secret)) = Inr l"
    and "Link_ForObject opts (SecretObject (Some secret))
           (ObjectMeta_Name (Secret_ObjectMeta secret)) = Inl e"
  shows "SecretListHandler_loop opts table (pre @ secret # post) = Inl (Error e)"
  using assms(1)
proof (induction pre arbitrary: table)
  case Nil
  show ?case by (simp add: assms(2))
next
  case (Cons a pre)
  then show ?case by auto
qed

lemma ReplicationControllerListHandler_loop_fails:
  assumes "\<forall>rc \<in> set pre. \<exists>l. Link_ForObject opts (ReplicationControllerObject (Some rc))
             (ObjectMeta_Name (RC_ObjectMeta rc)) = Inr l"
    and "\<forall>rc \<in> set pre. RCSpec_Template (RC_Spec rc) \<noteq> None"
    and "Link_ForObject opts (ReplicationControllerObject (Some rc))
           (ObjectMeta_Name (RC_ObjectMeta rc)) = Inl e"
  shows "ReplicationControllerListHandler_loop h opts table (pre @ rc # post) = Inl (Error e)"
  using assms(1,2)
proof (induction pre arbitrary: table)
  case Nil
  show ?case by (simp add: assms(3))
next
  case (Cons a pre)
  from Cons.prems obtain l template where
    l: "Link_ForObject opts (ReplicationControllerObject (Some a))
          (ObjectMeta_Name (RC_ObjectMeta a)) = Inr l"
    and t: "RCSpec_Template (RC_Spec a) = Some template"
    by auto
  from t obtain row where row: "ReplicationControllerListHandler_row h a l = Inr row"
    using ReplicationControllerListHandler_row_template by blast
  from Cons.prems have "ReplicationControllerListHandler_loop h opts (Table_Add table row)
      (pre @ rc # post) = Inl (Error e)"
    by (intro Cons.IH) simp_all
  then show ?case
    by (simp add: l row)
qed

text \<open>
  Claim C5.  When \<^verbatim>\<open>Link.ForObject\<close> fails for an item of a list handler, the handler
  returns that error and no table; the call is reached when the links of the items
  before it were built (and, for replication controllers, these items have pod
  templates).  When the store's \<^verbatim>\<open>List\<close> fails in \<^verbatim>\<open>createJobListView\<close>, it returns that
  error, wrapped with the key, and no component.  The result is the failure alone: no
  row of any item is returned.
\<close>

theorem downstream_failure_propagates:
  "((\<forall>job \<in> set pre. \<exists>l. Link_ForObject opts (JobObject (Some job))
         (ObjectMeta_Name (Job_ObjectMeta job)) = Inr l) \<and>
    Link_ForObject opts (JobObject (Some job)) (ObjectMeta_Name (Job_ObjectMeta job)) = Inl e \<longrightarrow>
    JobListHandler h (Some (pre @ job # post)) opts = Inl (Error e)) \<and>
   ((\<forall>secret \<in> set pre'. \<exists>l. Link_ForObject opts (SecretObject (Some secret))
         (ObjectMeta_Name (Secret_ObjectMeta secret)) = Inr l) \<and>
    Link_ForObject opts (SecretObject (Some secret))
      (ObjectMeta_Name (Secret_ObjectMeta secret)) = Inl e \<longrightarrow>
    SecretListHandler (Some (pre' @ secret # post')) opts = Inl (Error e)) \<and>
   ((\<forall>rc \<in> set pre''. \<exists>l. Link_ForObject opts (ReplicationControllerObject (Some rc))
         (ObjectMeta_Name (RC_ObjectMeta rc)) = Inr l) \<and>
    (\<forall>rc \<in> set pre''. RCSpec_Template (RC_Spec rc) \<noteq> None) \<and>
    Link_ForObject opts (ReplicationControllerObject (Some rc))
      (ObjectMeta_Name (RC_ObjectMeta rc)) = Inl e \<longrightarrow>
    ReplicationControllerListHandler h (Some (pre'' @ rc # post'')) opts = Inl (Error e)) \<and>
   (accessor_Namespace h object = Inr namespace \<and> accessor_APIVersion h object = Inr apiVersion \<and>
    accessor_Kind h object = Inr kind \<and> accessor_Name h object = Inr name \<and>
    ObjectStore_List opts
      \<lparr>Key_Namespace = namespace, Key_APIVersion = ''batch/v1beta1'', Key_Kind = ''Job'',
       Key_Name = [], Key_Selector = None\<rparr> = Inl e \<longrightarrow>
    createJobListView h object opts =
      Inl (Error (Wrapf e ''list all objects for key %+v''
        \<lparr>Key_Namespace = namespace, Key_APIVersion = ''batch/v1beta1'', Key_Kind = ''Job'',
         Key_Name = [], Key_Selector = None\<rparr>)))"
proof (intro conjI impI)
  assume "(\<forall>job \<in> set pre. \<exists>l. Link_ForObject opts (JobObject (Some job))
         (ObjectMeta_Name (Job_ObjectMeta job)) = Inr l) \<and>
    Link_ForObject opts (JobObject (Some job)) (ObjectMeta_Name (Job_ObjectMeta job)) = Inl e"
  then show "JobListHandler h (Some (pre @ job # post)) opts = Inl (Error e)"
    by (simp add: JobListHandler_def JobListHandler_loop_fails)
next
  assume "(\<forall>secret \<in> set pre'. \<exists>l. Link_ForObject opts (SecretObject (Some secret))
         (ObjectMeta_Name (Secret_ObjectMeta secret)) = Inr l) \<and>
    Link_ForObject opts (SecretObject (Some secret))
      (ObjectMeta_Name (Secret_ObjectMeta secret)) = Inl e"
  then show "SecretListHandler (Some (pre' @ secret # post')) opts = Inl (Error e)"
    by (simp add: SecretListHandler_def SecretListHandler_loop_fails)
next
  assume "(\<forall>rc \<in> set pre''. \<exists>l. Link_ForObject opts (ReplicationControllerObject (Some rc))
         (ObjectMeta_Name (RC_ObjectMeta rc)) = Inr l) \<and>
    (\<forall>rc \<in> set pre''. RCSpec_Template (RC_Spec rc) \<noteq> None) \<and>
    Link_ForObject opts (ReplicationControllerObject (Some rc))
      (ObjectMeta_Name (RC_ObjectMeta rc)) = Inl e"
  then show "ReplicationControllerListHandler h (Some (pre'' @ rc # post'')) opts = Inl (Error e)"
    by (simp add: ReplicationControllerListHandler_def Let_def
        ReplicationControllerListHandler_loop_fails)
next
  assume "accessor_Namespace h object = Inr namespace \<and> accessor_APIVersion h object = Inr apiVersion \<and>
    accessor_Kind h object = Inr kind \<and> accessor_Name h object = Inr name \<and>
    ObjectStore_List opts
      \<lparr>Key_Namespace = namespace, Key_APIVersion = ''batch/v1beta1'', Key_Kind = ''Job'',
       Key_Name = [], Key_Selector = None\<rparr> = Inl e"
  then show "createJobListView h object opts =
      Inl (Error (Wrapf e ''list all objects for key %+v''
        \<lparr>Key_Namespace = namespace, Key_APIVersion = ''batch/v1beta1'', Key_Kind = ''Job'',
         Key_Name = [], Key_Selector = None\<rparr>))"
    by (simp add: createJobListView_def)
qed

theorem downstream_failure_propagates_witness:
  "Link_ForObject example_Options (JobObject (Some (example_Job ''one'' []))) ''one'' =
     Inr (Link [] ''one'' ''/one'') \<and>
   Link_ForObject example_Options (JobObject (Some (example_Job ''broken'' []))) ''broken'' =
     Inl (New ''no link'') \<and>
   JobListHandler example_Helpers
     (Some [example_Job ''one'' [], example_Job ''broken'' [], example_Job ''two'' []])
     example_Options = Inl (Error (New ''no link'')) \<and>
   SecretListHandler (Some [example_Secret ''s'' fmempty, example_Secret ''broken'' fmempty])
     example_Options = Inl (Error (New ''no link'')) \<and>
   ReplicationControllerListHandler example_Helpers
     (Some [example_ReplicationController ''a'' [] (Some example_Template),
            example_ReplicationController ''broken'' [] None])
     example_Options = Inl (Error (New ''no link'')) \<and>
   ObjectStore_List example_Options
     \<lparr>Key_Namespace = ''other'', Key_APIVersion = ''batch/v1beta1'', Key_Kind = ''Job'',
      Key_Name = [], Key_Selector = None\<rparr> = Inl (New ''store is down'') \<and>
   createJobListView example_Helpers
     (JobObject (Some ((example_Job ''cron'' [])
        \<lparr>Job_ObjectMeta := (example_ObjectMeta ''cron'' [])\<lparr>ObjectMeta_Namespace := ''other''\<rparr>\<rparr>)))
     example_Options =
     Inl (Error (Wrapf (New ''store is down'') ''list all objects for key %+v''
       \<lparr>Key_Namespace = ''other'', Key_APIVersion = ''batch/v1beta1'', Key_Kind = ''Job'',
        Key_Name = [], Key_Selector = None\<rparr>))"
  using downstream_failure_propagates [of "[example_Job ''one'' []]" example_Options "example_Job ''broken'' []"
      "New ''no link''" example_Helpers "[example_Job ''two'' []]"
      "[example_Secret ''s'' fmempty]" "example_Secret ''broken'' fmempty" "[]"
      "[example_ReplicationController ''a'' [] (Some example_Template)]"
      "example_ReplicationController ''broken'' [] None" "[]"]
    downstream_failure_propagates [of _ example_Options _ "New ''store is down''" example_Helpers _ _ _ _ _ _ _
      "JobObject (Some ((example_Job ''cron'' [])
        \<lparr>Job_ObjectMeta := (example_ObjectMeta ''cron'' [])\<lparr>ObjectMeta_Namespace := ''other''\<rparr>\<rparr>))"
      "''other''" "''batch/v1''" "''Job''" "''cron''"]
  by (simp add: example_defs)

subsection \<open>Summaries\<close>

text \<open>
  Claim C6.  The sections of a summary are in the order in which the code adds them:
  \<^verbatim>\<open>createJobConfiguration\<close> always returns \<open>Back Off Limit\<close>, \<open>Completions\<close>, \<open>Parallelism\<close>,
  and \<^verbatim>\<open>ReplicationControllerConfiguration.Create\<close> returns \<open>Controlled By\<close> when there is
  a controller reference, then \<open>Replica Status\<close> when \<^verbatim>\<open>Spec.Replicas\<close> is set, then
  \<open>Replicas\<close>.
\<close>

theorem summary_sections_order:
  "(\<exists>backOffLimit completions parallelism.
      createJobConfiguration h job =
        Inr (Summary ''Configuration''
          [(''Back Off Limit'', backOffLimit), (''Completions'', completions),
           (''Parallelism'', parallelism)])) \<and>
   (ReplicationControllerConfiguration_Create
        (Some \<lparr>RCConfiguration_replicationcontroller = Some rc\<rparr>) opts = Inr summary \<longrightarrow>
      (\<exists>sections. summary = Summary ''Configuration'' sections \<and>
         map fst sections =
           (if GetControllerOf (ObjectMeta_OwnerReferences (RC_ObjectMeta rc)) = None then []
            else [''Controlled By'']) @
           (if RCSpec_Replicas (RC_Spec rc) = None then [] else [''Replica Status'']) @
           [''Replicas'']))"
  by (auto simp: createJobConfiguration_def ReplicationControllerConfiguration_Create_def
      SummarySections_Add_def SummarySections_AddText_def NewSummary_def Let_def
      split: option.splits sum.splits)

theorem summary_sections_order_witness:
  "ReplicationControllerConfiguration_Create
     (Some \<lparr>RCConfiguration_replicationcontroller =
        Some (example_ReplicationController ''rc'' [example_Owner ''v1'' ''Owner'' ''owner'']
                 (Some example_Template))\<rparr>)
     example_Options =
     Inr (Summary ''Configuration''
       [(''Controlled By'', Link [] ''owner'' ''/owner''),
        (''Replica Status'', Text ''Current 2 / Desired 3''),
        (''Replicas'', Text ''3'')]) \<and>
   map fst (Summary_Sections (projr (ReplicationControllerConfiguration_Create
     (Some \<lparr>RCConfiguration_replicationcontroller =
        Some (example_ReplicationController ''rc'' [example_Owner ''v1'' ''Owner'' ''owner'']
                 (Some example_Template))\<rparr>)
     example_Options))) = [''Controlled By'', ''Replica Status'', ''Replicas'']"
proof -
  have c: "ReplicationControllerConfiguration_Create
     (Some \<lparr>RCConfiguration_replicationcontroller =
        Some (example_ReplicationController ''rc'' [example_Owner ''v1'' ''Owner'' ''owner'']
                 (Some example_Template))\<rparr>)
     example_Options =
     Inr (Summary ''Configuration''
       [(''Controlled By'', Link [] ''owner'' ''/owner''),
        (''Replica Status'', Text ''Current 2 / Desired 3''),
        (''Replicas'', Text ''3'')])"
    by (simp add: example_defs ReplicationControllerConfiguration_Create_def GetControllerOf_def
        component_defs)
  show ?thesis
    using c summary_sections_order [of _ _ "example_ReplicationController ''rc''
        [example_Owner ''v1'' ''Owner'' ''owner''] (Some example_Template)" example_Options,
        THEN conjunct2, rule_format, OF c]
    by (auto simp: example_ReplicationController_def example_ObjectMeta_def example_Owner_def
        GetControllerOf_def)
qed

subsection \<open>The status of a job\<close>

text \<open>\<open>Sprintf_d\<close> writes decimal numerals: reading its output gives the number back.\<close>

lemma digit_value_digit: "d < 10 \<Longrightarrow> digit_value (digit d) = d"
proof -
  assume "d < 10"
  then have "d \<in> {0, 1, 2, 3, 4, 5, 6, 7, 8, 9}"
    by auto
  then show ?thesis
    by (auto simp: digit_def digit_value_def numeral_eq_Suc)
qed

lemma digit_not_minus: "d < 10 \<Longrightarrow> digit d \<noteq> CHR ''-''"
proof -
  assume "d < 10"
  then have "d \<in> {0, 1, 2, 3, 4, 5, 6, 7, 8, 9}"
    by auto
  then show ?thesis
    by (auto simp: digit_def numeral_eq_Suc)
qed

lemma decimal_nat_snoc: "decimal_nat (s @ [c]) = 10 * decimal_nat s + digit_value c"
  by (simp add: decimal_nat_def)

lemma decimal_nat_digits: "decimal_nat (digits n) = n"
proof (induction n rule: digits.induct)
  case (1 n)
  show ?case
  proof (cases "n < 10")
    case True
    then show ?thesis
      by (simp add: digits.simps [of n] decimal_nat_def digit_value_digit)
  next
    case False
    then have "decimal_nat (digits (n div 10)) = n div 10"
      using 1 by simp
    with False show ?thesis
      by (simp add: digits.simps [of n] decimal_nat_snoc digit_value_digit)
  qed
qed

lemma digits_hd: "\<exists>c cs. digits n = c # cs \<and> c \<noteq> CHR ''-''"
proof (induction n rule: digits.induct)
  case (1 n)
  show ?case
  proof (cases "n < 10")
    case True
    then show ?thesis
      by (simp add: digits.simps [of n] digit_not_minus)
  next
    case False
    then obtain c cs where "digits (n div 10) = c # cs" "c \<noteq> CHR ''-''"
      using 1 by blast
    with False show ?thesis
      by (simp add: digits.simps [of n])
  qed
qed

lemma decimal_int_Sprintf_d: "decimal_int (Sprintf_d i) = i"
proof (cases "i < 0")
  case True
  then show ?thesis
    by (simp add: Sprintf_d_def decimal_int_def decimal_nat_digits)
next
  case False
  obtain c cs where d: "digits (nat i) = c # cs" "c \<noteq> CHR ''-''"
    using digits_hd by blast
  have "decimal_nat (c # cs) = nat i"
    using decimal_nat_digits [of "nat i"] d by simp
  with False d show ?thesis
    by (simp add: Sprintf_d_def decimal_int_def)
qed

text \<open>
  Claim C8.  \<^verbatim>\<open>createJobStatus\<close> never fails.  Its summary has a section \<open>Started\<close>
  exactly when \<^verbatim>\<open>Status.StartTime\<close> is set, a section \<open>Completed\<close> exactly when
  \<^verbatim>\<open>Status.CompletionTime\<close> is set, and always one section \<open>Succeeded\<close>, whose text is the
  decimal numeral of \<^verbatim>\<open>Status.Succeeded\<close>.
\<close>

theorem job_status_sections:
  "\<exists>sections.
     createJobStatus job = Inr (Summary ''Status'' sections) \<and>
     (''Started'' \<in> fst ` set sections \<longleftrightarrow> JobStatus_StartTime (Job_Status job) \<noteq> None) \<and>
     (''Completed'' \<in> fst ` set sections \<longleftrightarrow> JobStatus_CompletionTime (Job_Status job) \<noteq> None) \<and>
     map snd (filter (\<lambda>section. fst section = ''Succeeded'') sections) =
       [Text (Sprintf_d (sint (JobStatus_Succeeded (Job_Status job))))] \<and>
     decimal_int (Sprintf_d (sint (JobStatus_Succeeded (Job_Status job)))) =
       sint (JobStatus_Succeeded (Job_Status job))"
  by (cases "JobStatus_StartTime (Job_Status job)";
      cases "JobStatus_CompletionTime (Job_Status job)")
     (simp_all add: createJobStatus_def SummarySections_Add_def NewSummary_def Let_def
        decimal_int_Sprintf_d)

theorem job_status_sections_witness:
  "createJobStatus (example_Job ''one'' []) =
     Inr (Summary ''Status''
       [(''Started'', Timestamp (Time 1547211500)), (''Succeeded'', Text ''1'')])"
  using job_status_sections [of "example_Job ''one'' []"]
  by (simp add: example_Job_def createJobStatus_def component_defs)

subsection \<open>Secrets\<close>

lemma SecretListHandler_loop_links:
  "SecretListHandler_loop opts table items = Inr table' \<Longrightarrow>
   \<forall>secret \<in> set items. \<exists>l. Link_ForObject opts (SecretObject (Some secret))
      (ObjectMeta_Name (Secret_ObjectMeta secret)) = Inr l"
  by (induction items arbitrary: table) (auto split: sum.splits)

lemma SecretListHandler_row_Data:
  "fmlookup (SecretListHandler_row secret nameLink) ''Data'' =
     Some (Text (Sprintf_d (len_map (Secret_Data secret))))"
  by (simp add: SecretListHandler_row_def Let_def)

text \<open>
  Claim C9.  The values of a secret are not printed.  Replacing the values stored under
  the keys of \<^verbatim>\<open>Data\<close> (the keys stay the same) changes neither the orders in which the
  keys can be visited nor, for any such order, the table of \<^verbatim>\<open>secretData\<close>, which has one
  row \<open>Key\<close> per key and nothing else, nor the row of the secret in \<^verbatim>\<open>SecretListHandler\<close>;
  and in every row of \<^verbatim>\<open>SecretListHandler\<close> the column \<open>Data\<close> is the number of keys.
\<close>

theorem secret_values_not_printed:
  "(fmdom data = fmdom (Secret_Data secret) \<longrightarrow>
      (range_order (Secret_Data (secret\<lparr>Secret_Data := data\<rparr>)) keys \<longleftrightarrow>
         range_order (Secret_Data secret) keys) \<and>
      secretData keys (secret\<lparr>Secret_Data := data\<rparr>) = secretData keys secret \<and>
      SecretListHandler_row (secret\<lparr>Secret_Data := data\<rparr>) nameLink =
        SecretListHandler_row secret nameLink) \<and>
   secretData keys secret =
     Inr (Table ''Data'' ''This secret has no data!'' [''Key'']
            (map (\<lambda>key. fmupd ''Key'' (Text key) fmempty) keys)) \<and>
   (SecretListHandler (Some secrets) opts = Inr table \<longrightarrow>
      map (\<lambda>row. fmlookup row ''Data'') (Table_Rows table) =
        map (\<lambda>secret. Some (Text (Sprintf_d (int (fcard (fmdom (Secret_Data secret))))))) secrets)"
proof (intro conjI impI)
  assume d: "fmdom data = fmdom (Secret_Data secret)"
  show "range_order (Secret_Data (secret\<lparr>Secret_Data := data\<rparr>)) keys \<longleftrightarrow>
         range_order (Secret_Data secret) keys"
    by (simp add: range_order_def d)
  show "SecretListHandler_row (secret\<lparr>Secret_Data := data\<rparr>) nameLink =
        SecretListHandler_row secret nameLink"
    by (simp add: SecretListHandler_row_def len_map_def d)
next
  show "secretData keys (secret\<lparr>Secret_Data := data\<rparr>) = secretData keys secret"
    by (simp add: secretData_def)
next
  show "secretData keys secret =
     Inr (Table ''Data'' ''This secret has no data!'' [''Key'']
            (map (\<lambda>key. fmupd ''Key'' (Text key) fmempty) keys))"
    by (simp add: secretData_table secretDataCols_def NewTableCols_def)
next
  assume t: "SecretListHandler (Some secrets) opts = Inr table"
  then have "SecretListHandler_loop opts
      (Table ''Secrets'' ''We couldn't find any secrets!'' secretTableCols []) secrets = Inr table"
    by (simp add: SecretListHandler_def NewTable_def)
  from SecretListHandler_loop_rows [OF SecretListHandler_loop_links [OF this]] this
  have "Table_Rows table = map (\<lambda>secret. SecretListHandler_row secret
       (projr (Link_ForObject opts (SecretObject (Some secret))
                 (ObjectMeta_Name (Secret_ObjectMeta secret))))) secrets"
    by auto
  then show "map (\<lambda>row. fmlookup row ''Data'') (Table_Rows table) =
        map (\<lambda>secret. Some (Text (Sprintf_d (int (fcard (fmdom (Secret_Data secret))))))) secrets"
    by (simp add: SecretListHandler_row_Data len_map_def comp_def)
qed

theorem secret_values_not_printed_witness:
  "fmdom (fmupd ''a'' [9] (fmupd ''b'' [] fmempty)) =
     fmdom (Secret_Data (example_Secret ''s'' (fmupd ''a'' [1, 2] (fmupd ''b'' [3] fmempty)))) \<and>
   secretData [''a'', ''b'']
     ((example_Secret ''s'' (fmupd ''a'' [1, 2] (fmupd ''b'' [3] fmempty)))
        \<lparr>Secret_Data := fmupd ''a'' [9] (fmupd ''b'' [] fmempty)\<rparr>) =
   secretData [''a'', ''b''] (example_Secret ''s'' (fmupd ''a'' [1, 2] (fmupd ''b'' [3] fmempty))) \<and>
   map (\<lambda>row. fmlookup row ''Data'')
     (Table_Rows (projr (SecretListHandler
        (Some [example_Secret ''s'' (fmupd ''a'' [1, 2] (fmupd ''b'' [3] fmempty))])
        example_Options))) = [Some (Text ''2'')]"
proof -
  have d: "fmdom (fmupd ''a'' [9] (fmupd ''b'' [] fmempty)) =
     fmdom (Secret_Data (example_Secret ''s'' (fmupd ''a'' [1, 2] (fmupd ''b'' [3] fmempty))))"
    by (simp add: example_Secret_def)
  have t: "\<exists>table. SecretListHandler
        (Some [example_Secret ''s'' (fmupd ''a'' [1, 2] (fmupd ''b'' [3] fmempty))])
        example_Options = Inr table"
    by (simp add: SecretListHandler_def NewTable_def example_defs)
  have c: "fcard {|''a'', ''b''|} = 2"
    by (simp add: fcard_finsert_if)
  from t obtain table where table: "SecretListHandler
        (Some [example_Secret ''s'' (fmupd ''a'' [1, 2] (fmupd ''b'' [3] fmempty))])
        example_Options = Inr table"
    by blast
  show ?thesis
    using d c table
      secret_values_not_printed [of "fmupd ''a'' [9] (fmupd ''b'' [] fmempty)"
        "example_Secret ''s'' (fmupd ''a'' [1, 2] (fmupd ''b'' [3] fmempty))" "[''a'', ''b'']"
        _ "[example_Secret ''s'' (fmupd ''a'' [1, 2] (fmupd ''b'' [3] fmempty))]"
        example_Options table]
    by (simp add: example_Secret_def Sprintf_d_def digits.simps digit_def)
qed

subsection \<open>The jobs of an owner\<close>

lemma createJobListView_owners_replicate:
  "createJobListView_owners apiVersion kind name job jobList ownerReferences =
     jobList @ replicate (length (filter (\<lambda>ownerReference.
         OwnerReference_APIVersion ownerReference = apiVersion \<and>
         OwnerReference_Kind ownerReference = kind \<and>
         OwnerReference_Name ownerReference = name) ownerReferences)) job"
  by (induction ownerReferences arbitrary: jobList) (simp_all add: replicate_app_Cons_same)

lemma createJobListView_loop_converted:
  assumes "list_all2 (\<lambda>item job. \<exists>converted. FromUnstructured h item = Inr converted \<and>
              copyObjectMeta h converted item = Inr job) items jobs"
  shows "createJobListView_loop h apiVersion kind name jobList items =
     Inr (jobList @ concat (map (\<lambda>job. replicate (length (filter (\<lambda>ownerReference.
         OwnerReference_APIVersion ownerReference = apiVersion \<and>
         OwnerReference_Kind ownerReference = kind \<and>
         OwnerReference_Name ownerReference = name)
         (ObjectMeta_OwnerReferences (Job_ObjectMeta job)))) job) jobs))"
  using assms
proof (induction items jobs arbitrary: jobList rule: list_all2_induct)
  case Nil
  show ?case by simp
next
  case (Cons item items job jobs)
  from Cons.hyps(1) obtain converted where
    c: "FromUnstructured h item = Inr converted" "copyObjectMeta h converted item = Inr job"
    by blast
  show ?case
    by (simp add: c Cons.IH createJobListView_owners_replicate)
qed

lemma set_concat_replicate:
  "set (concat (map (\<lambda>x. replicate (length (filter P (f x))) x) xs)) =
     {x \<in> set xs. \<exists>y \<in> set (f x). P y}"
  by (auto simp: filter_empty_conv)

text \<open>A list handler reads nothing of its options but the link generator.\<close>

lemma JobListHandler_links:
  "Link_ForObject opts' = Link_ForObject opts \<Longrightarrow>
   JobListHandler h list opts' = JobListHandler h list opts"
proof -
  assume l: "Link_ForObject opts' = Link_ForObject opts"
  have "JobListHandler_loop h opts' table items = JobListHandler_loop h opts table items"
    for table items
    by (induction items arbitrary: table) (simp_all add: l cong: sum.case_cong)
  then show ?thesis
    by (cases list) (simp_all add: JobListHandler_def)
qed

text \<open>
  Claim C10.  \<^verbatim>\<open>createJobListView\<close> asks the store for the key made of the object's
  namespace and the constants \<open>batch/v1beta1\<close> and \<open>Job\<close>, whatever the object's own
  \<^verbatim>\<open>apiVersion\<close> is, and for no other key: a store that gives the same answer for this
  key gives the same view.  When the listed items convert to \<open>jobs\<close>, the list it prints
  with \<^verbatim>\<open>JobListHandler\<close> holds each job once per owner reference whose \<^verbatim>\<open>APIVersion\<close>,
  \<^verbatim>\<open>Kind\<close> and \<^verbatim>\<open>Name\<close> are the object's, in the order of the listing: exactly the jobs
  with at least one such reference occur in it.
\<close>

theorem job_list_view_owned_jobs:
  assumes "accessor_Namespace h object = Inr namespace"
    and "accessor_APIVersion h object = Inr apiVersion"
    and "accessor_Kind h object = Inr kind"
    and "accessor_Name h object = Inr name"
    and "ObjectStore_List options
           \<lparr>Key_Namespace = namespace, Key_APIVersion = ''batch/v1beta1'', Key_Kind = ''Job'',
            Key_Name = [], Key_Selector = None\<rparr> = Inr (Some items)"
    and "list_all2 (\<lambda>item job. \<exists>converted. FromUnstructured h item = Inr converted \<and>
              copyObjectMeta h converted item = Inr job) items jobs"
  shows "\<exists>jobList.
     createJobListView h object options =
       JobListHandler h (Some jobList) (options\<lparr>DisableLabels := True\<rparr>) \<and>
     jobList = concat (map (\<lambda>job. replicate (length (filter (\<lambda>ownerReference.
         OwnerReference_APIVersion ownerReference = apiVersion \<and>
         OwnerReference_Kind ownerReference = kind \<and>
         OwnerReference_Name ownerReference = name)
         (ObjectMeta_OwnerReferences (Job_ObjectMeta job)))) job) jobs) \<and>
     set jobList = {job \<in> set jobs.
       \<exists>ownerReference \<in> set (ObjectMeta_OwnerReferences (Job_ObjectMeta job)).
         OwnerReference_APIVersion ownerReference = apiVersion \<and>
         OwnerReference_Kind ownerReference = kind \<and>
         OwnerReference_Name ownerReference = name} \<and>
     (\<forall>store'.
        store' \<lparr>Key_Namespace = namespace, Key_APIVersion = ''batch/v1beta1'', Key_Kind = ''Job'',
                Key_Name = [], Key_Selector = None\<rparr> = Inr (Some items) \<longrightarrow>
        createJobListView h object (options\<lparr>ObjectStore_List := store'\<rparr>) =
        createJobListView h object options)"
proof -
  let ?key = "\<lparr>Key_Namespace = namespace, Key_APIVersion = ''batch/v1beta1'', Key_Kind = ''Job'',
            Key_Name = [], Key_Selector = None\<rparr>"
  let ?owned = "concat (map (\<lambda>job. replicate (length (filter (\<lambda>ownerReference.
         OwnerReference_APIVersion ownerReference = apiVersion \<and>
         OwnerReference_Kind ownerReference = kind \<and>
         OwnerReference_Name ownerReference = name)
         (ObjectMeta_OwnerReferences (Job_ObjectMeta job)))) job) jobs)"
  have view: "createJobListView h object opts =
       JobListHandler h (Some ?owned) (opts\<lparr>DisableLabels := True\<rparr>)"
    if "ObjectStore_List opts ?key = Inr (Some items)" for opts :: "'a Options"
    by (simp add: createJobListView_def assms(1-4) that
        createJobListView_loop_converted [OF assms(6)])
  have owned: "set ?owned = {job \<in> set jobs.
       \<exists>ownerReference \<in> set (ObjectMeta_OwnerReferences (Job_ObjectMeta job)).
         OwnerReference_APIVersion ownerReference = apiVersion \<and>
         OwnerReference_Kind ownerReference = kind \<and>
         OwnerReference_Name ownerReference = name}"
    by (rule set_concat_replicate)
  have store: "createJobListView h object (options\<lparr>ObjectStore_List := store'\<rparr>) =
        createJobListView h object options"
    if s: "store' ?key = Inr (Some items)" for store'
  proof -
    have "createJobListView h object (options\<lparr>ObjectStore_List := store'\<rparr>) =
        JobListHandler h (Some ?owned) (options\<lparr>ObjectStore_List := store', DisableLabels := True\<rparr>)"
      by (rule view) (simp add: s)
    also have "\<dots> = JobListHandler h (Some ?owned) (options\<lparr>DisableLabels := True\<rparr>)"
      by (rule JobListHandler_links) simp
    also have "\<dots> = createJobListView h object options"
      by (rule view [OF assms(5), symmetric])
    finally show ?thesis .
  qed
  from view [OF assms(5)] owned store show ?thesis
    by blast
qed

theorem job_list_view_owned_jobs_witness:
  "accessor_Namespace example_Helpers example_CronJob = Inr ''default'' \<and>
   accessor_APIVersion example_Helpers example_CronJob = Inr ''batch/v1beta1'' \<and>
   accessor_Kind example_Helpers example_CronJob = Inr ''CronJob'' \<and>
   accessor_Name example_Helpers example_CronJob = Inr ''cron'' \<and>
   createJobListView example_Helpers example_CronJob example_Options =
     JobListHandler example_Helpers
       (Some [example_Job ''one'' [example_Owner ''batch/v1beta1'' ''CronJob'' ''cron''],
              example_Job ''three'' [example_Owner ''batch/v1beta1'' ''CronJob'' ''cron'',
                                     example_Owner ''batch/v1beta1'' ''CronJob'' ''cron''],
              example_Job ''three'' [example_Owner ''batch/v1beta1'' ''CronJob'' ''cron'',
                                     example_Owner ''batch/v1beta1'' ''CronJob'' ''cron'']])
       (example_Options\<lparr>DisableLabels := True\<rparr>) \<and>
   createJobListView example_Helpers example_CronJob
     (example_Options\<lparr>ObjectStore_List := (\<lambda>key. example_List
        \<lparr>Key_Namespace = ''default'', Key_APIVersion = ''batch/v1beta1'', Key_Kind = ''Job'',
         Key_Name = [], Key_Selector = None\<rparr>)\<rparr>) =
   createJobListView example_Helpers example_CronJob example_Options"
proof -
  let ?items = "[example_Job ''one'' [example_Owner ''batch/v1beta1'' ''CronJob'' ''cron''],
                 example_Job ''two'' [example_Owner ''v1'' ''Pod'' ''cron''],
                 example_Job ''three'' [example_Owner ''batch/v1beta1'' ''CronJob'' ''cron'',
                                        example_Owner ''batch/v1beta1'' ''CronJob'' ''cron'']]"
  let ?key = "\<lparr>Key_Namespace = ''default'', Key_APIVersion = ''batch/v1beta1'', Key_Kind = ''Job'',
            Key_Name = [], Key_Selector = None\<rparr>"
  have ns: "accessor_Namespace example_Helpers example_CronJob = Inr ''default''"
    and av: "accessor_APIVersion example_Helpers example_CronJob = Inr ''batch/v1beta1''"
    and k: "accessor_Kind example_Helpers example_CronJob = Inr ''CronJob''"
    and n: "accessor_Name example_Helpers example_CronJob = Inr ''cron''"
    by (simp_all add: example_defs)
  have l: "ObjectStore_List example_Options ?key = Inr (Some ?items)"
    by (simp add: example_Options_def example_List_def)
  have l': "example_List ?key = Inr (Some ?items)"
    by (simp add: example_List_def)
  have c: "list_all2 (\<lambda>item job. \<exists>converted. FromUnstructured example_Helpers item = Inr converted \<and>
              copyObjectMeta example_Helpers converted item = Inr job) ?items ?items"
    by (simp add: example_Helpers_def)
  show ?thesis
    using ns av k n l' job_list_view_owned_jobs [OF ns av k n l c]
    by (simp add: example_Job_def example_Owner_def example_ObjectMeta_def)
qed

end
